theory Spec2Isabelle
  imports Main "HOL-Library.FSet"
begin

section \<open>Python values used by the bot\<close>

text \<open>
  The bot (\<^verbatim>\<open>src/bot.py\<close>) is Python. Its strings are modelled as \<^typ>\<open>string\<close>
  (a list of bytes: a code point beyond ASCII is its UTF-8 bytes), its integers as
  \<^typ>\<open>int\<close>, and every exception a line can raise as a value of \<open>py_error\<close> carrying
  the exception's message. \<open>TransportError\<close> is what the HTTP client raises,
  \<open>TelegramError\<close> what a call on the chat platform raises.
\<close>

datatype py_error =
    TypeError string
  | AttributeError string
  | ValueError string
  | TransportError string
  | TelegramError string

fun str_of_error :: "py_error \<Rightarrow> string" where
  "str_of_error (TypeError m) = m"
| "str_of_error (AttributeError m) = m"
| "str_of_error (ValueError m) = m"
| "str_of_error (TransportError m) = m"
| "str_of_error (TelegramError m) = m"

definition ebind :: "py_error + 'a \<Rightarrow> ('a \<Rightarrow> py_error + 'b) \<Rightarrow> py_error + 'b" where
  "ebind r f = (case r of Inl e \<Rightarrow> Inl e | Inr x \<Rightarrow> f x)"

subsection \<open>Strings\<close>

text \<open>\<^verbatim>\<open>s.split(sep)\<close> for a one-character separator: never an empty list.\<close>

fun split_on :: "char \<Rightarrow> string \<Rightarrow> string list" where
  "split_on sep [] = [[]]"
| "split_on sep (c # cs) =
     (if c = sep then [] # split_on sep cs
      else (c # hd (split_on sep cs)) # tl (split_on sep cs))"

text \<open>\<^verbatim>\<open>sep.join(xs)\<close>.\<close>

fun join :: "string \<Rightarrow> string list \<Rightarrow> string" where
  "join sep [] = []"
| "join sep [x] = x"
| "join sep (x # y # ys) = x @ sep @ join sep (y # ys)"

text \<open>\<^verbatim>\<open>s.replace(a, b)\<close> for one-character \<open>a\<close> and \<open>b\<close>.\<close>

definition replace_char :: "char \<Rightarrow> char \<Rightarrow> string \<Rightarrow> string" where
  "replace_char a b s = map (\<lambda>c. if c = a then b else c) s"

text \<open>
  The characters \<^verbatim>\<open>str.strip()\<close> treats as white space, within ASCII: tab, line feed,
  vertical tab, form feed, carriage return, the four separators \<open>0x1C\<close> to \<open>0x1F\<close>, and
  the space. White space beyond ASCII, which \<^verbatim>\<open>str.strip()\<close> removes too, is not removed
  here.
\<close>

definition is_space :: "char \<Rightarrow> bool" where
  "is_space c = (let n = of_char c :: nat in (9 \<le> n \<and> n \<le> 13) \<or> (28 \<le> n \<and> n \<le> 32))"

definition strip :: "string \<Rightarrow> string" where
  "strip s = rev (dropWhile is_space (rev (dropWhile is_space s)))"

text \<open>\<^verbatim>\<open>s.lower()\<close>: the letters \<open>A\<close> to \<open>Z\<close> are mapped, every other byte is kept.\<close>

definition lower_char :: "char \<Rightarrow> char" where
  "lower_char c = (let n = of_char c :: nat in if 65 \<le> n \<and> n \<le> 90 then char_of (n + 32) else c)"

definition lower :: "string \<Rightarrow> string" where
  "lower s = map lower_char s"

definition endswith :: "string \<Rightarrow> string \<Rightarrow> bool" where
  "endswith s suf = (length suf \<le> length s \<and> drop (length s - length suf) s = suf)"

definition hex_digit :: "nat \<Rightarrow> char" where
  "hex_digit d = (if d < 10 then char_of (48 + d) else char_of (87 + d))"

definition repr_char :: "char \<Rightarrow> char \<Rightarrow> string" where
  "repr_char quote c =
     (let n = of_char c :: nat in
      if c = quote \<or> c = CHR 0x5C then [CHR 0x5C, c]
      else if n = 10 then [CHR 0x5C, CHR ''n'']
      else if n = 13 then [CHR 0x5C, CHR ''r'']
      else if n = 9 then [CHR 0x5C, CHR ''t'']
      else if n < 32 \<or> n = 127 then [CHR 0x5C, CHR ''x'', hex_digit (n div 16), hex_digit (n mod 16)]
      else [c])"

text \<open>
  \<^verbatim>\<open>repr(s)\<close> of a string: single quotes, unless the text has a single quote and no
  double quote.
\<close>

definition repr_str :: "string \<Rightarrow> string" where
  "repr_str s =
     (let quote = (if CHR 0x27 \<in> set s \<and> CHR 0x22 \<notin> set s then CHR 0x22 else CHR 0x27)
      in [quote] @ concat (map (repr_char quote) s) @ [quote])"

subsection \<open>Integers and their decimal text\<close>

definition digit_char :: "nat \<Rightarrow> char" where
  "digit_char d = char_of (48 + d)"

definition is_digit :: "char \<Rightarrow> bool" where
  "is_digit c = (let n = of_char c :: nat in 48 \<le> n \<and> n \<le> 57)"

definition digit_val :: "char \<Rightarrow> nat" where
  "digit_val c = of_char c - 48"

function digits10 :: "nat \<Rightarrow> string" where
  "digits10 n = (if n < 10 then [digit_char n] else digits10 (n div 10) @ [digit_char (n mod 10)])"
  by pat_completeness auto
termination
  by (relation "measure id") auto

declare digits10.simps [simp del]

text \<open>\<^verbatim>\<open>str(n)\<close>, which is what an f-string writes for an integer.\<close>

definition py_str :: "int \<Rightarrow> string" where
  "py_str n = (if n < 0 then CHR ''-'' # digits10 (nat (- n)) else digits10 (nat n))"

definition value10 :: "string \<Rightarrow> nat" where
  "value10 s = foldl (\<lambda>acc c. 10 * acc + digit_val c) 0 s"

text \<open>
  The digit part \<^verbatim>\<open>int()\<close> accepts: digits, with single underscores between digits only.
\<close>

fun digits_ok :: "string \<Rightarrow> bool" where
  "digits_ok [] = False"
| "digits_ok [c] = is_digit c"
| "digits_ok (c # d # s) =
     (is_digit c \<and> (if d = CHR ''_'' then digits_ok s else digits_ok (d # s)))"

text \<open>
  The white space \<^verbatim>\<open>int()\<close> skips around an ASCII text: tab, line feed, vertical tab,
  form feed, carriage return and the space. The separators \<open>0x1C\<close> to \<open>0x1F\<close>, which
  \<^verbatim>\<open>str.strip()\<close> removes, are not among them.
\<close>

definition is_int_space :: "char \<Rightarrow> bool" where
  "is_int_space c = (let n = of_char c :: nat in (9 \<le> n \<and> n \<le> 13) \<or> n = 32)"

definition int_strip :: "string \<Rightarrow> string" where
  "int_strip s = rev (dropWhile is_int_space (rev (dropWhile is_int_space s)))"

text \<open>
  \<^verbatim>\<open>int(s)\<close> in base 10: white space around the text is dropped, one sign is allowed,
  and anything else raises \<^verbatim>\<open>ValueError\<close>. The digits are the ASCII digits; the decimal
  digits and the white space of other scripts, which Python accepts too, are not text of
  this model.
\<close>

definition py_int :: "string \<Rightarrow> py_error + int" where
  "py_int s =
     (let t = int_strip s;
          neg = (t \<noteq> [] \<and> hd t = CHR ''-'');
          body = (if t \<noteq> [] \<and> (hd t = CHR ''-'' \<or> hd t = CHR ''+'') then tl t else t)
      in if digits_ok body
         then (let v = int (value10 (filter (\<lambda>c. c \<noteq> CHR ''_'') body))
               in Inr (if neg then - v else v))
         else Inl (ValueError (''invalid literal for int() with base 10: '' @ repr_str s)))"

subsection \<open>Parsed JSON\<close>

text \<open>
  What \<^verbatim>\<open>r.json()\<close> hands to the adapters. An object is the list of its items (keys
  distinct, as in a Python dict). Numbers are integers: the adapters read no
  fractional field.
\<close>

datatype json =
    JNull
  | JBool bool
  | JInt int
  | JStr string
  | JArr "json list"
  | JObj "(string \<times> json) list"

fun type_name :: "json \<Rightarrow> string" where
  "type_name JNull = ''NoneType''"
| "type_name (JBool b) = ''bool''"
| "type_name (JInt n) = ''int''"
| "type_name (JStr s) = ''str''"
| "type_name (JArr xs) = ''list''"
| "type_name (JObj kvs) = ''dict''"

definition quoted :: "string \<Rightarrow> string" where
  "quoted s = [CHR 0x27] @ s @ [CHR 0x27]"

definition no_attribute :: "json \<Rightarrow> string \<Rightarrow> py_error" where
  "no_attribute v a =
     AttributeError (quoted (type_name v) @ '' object has no attribute '' @ quoted a)"

text \<open>\<^verbatim>\<open>v.get(key, default)\<close>: only a dict has the method.\<close>

fun py_get :: "json \<Rightarrow> string \<Rightarrow> json \<Rightarrow> py_error + json" where
  "py_get (JObj kvs) k d = Inr (case map_of kvs k of None \<Rightarrow> d | Some v \<Rightarrow> v)"
| "py_get v k d = Inl (no_attribute v ''get'')"

text \<open>Truth value of an object, as \<^verbatim>\<open>if\<close>, \<^verbatim>\<open>or\<close> and \<^verbatim>\<open>not\<close> test it.\<close>

fun truthy :: "json \<Rightarrow> bool" where
  "truthy JNull = False"
| "truthy (JBool b) = b"
| "truthy (JInt n) = (n \<noteq> 0)"
| "truthy (JStr s) = (s \<noteq> [])"
| "truthy (JArr xs) = (xs \<noteq> [])"
| "truthy (JObj kvs) = (kvs \<noteq> [])"

definition py_or :: "json \<Rightarrow> json \<Rightarrow> json" where
  "py_or a b = (if truthy a then a else b)"

text \<open>
  \<^verbatim>\<open>v[:n]\<close>. On a string Python counts code points and the model bytes: the two agree
  on ASCII text.
\<close>

fun py_slice_to :: "nat \<Rightarrow> json \<Rightarrow> py_error + json" where
  "py_slice_to n (JStr s) = Inr (JStr (take n s))"
| "py_slice_to n (JArr xs) = Inr (JArr (take n xs))"
| "py_slice_to n (JObj kvs) = Inl (TypeError (''unhashable type: '' @ quoted ''slice''))"
| "py_slice_to n v = Inl (TypeError (quoted (type_name v) @ '' object is not subscriptable''))"

text \<open>
  The elements a \<^verbatim>\<open>for\<close> loop visits: the items of a list, the characters of a string,
  the keys of a dict.
\<close>

fun py_iter :: "json \<Rightarrow> py_error + json list" where
  "py_iter (JArr xs) = Inr xs"
| "py_iter (JStr s) = Inr (map (\<lambda>c. JStr [c]) s)"
| "py_iter (JObj kvs) = Inr (map (\<lambda>kv. JStr (fst kv)) kvs)"
| "py_iter v = Inl (TypeError (quoted (type_name v) @ '' object is not iterable''))"

subsection \<open>Formatting a value into an f-string\<close>

fun py_repr :: "json \<Rightarrow> string" where
  "py_repr JNull = ''None''"
| "py_repr (JBool b) = (if b then ''True'' else ''False'')"
| "py_repr (JInt n) = py_str n"
| "py_repr (JStr s) = repr_str s"
| "py_repr (JArr xs) = ''['' @ join '', '' (map py_repr xs) @ '']''"
| "py_repr (JObj kvs) =
     ''{'' @ join '', '' (map (\<lambda>kv. repr_str (fst kv) @ '': '' @ py_repr (snd kv)) kvs) @ ''}''"

text \<open>\<^verbatim>\<open>f"{v}"\<close>, that is \<^verbatim>\<open>str(v)\<close>.\<close>

fun py_format :: "json \<Rightarrow> string" where
  "py_format (JStr s) = s"
| "py_format v = py_repr v"

section \<open>The adapters\<close>

text \<open>
  \<^verbatim>\<open>http.get_json(url, params)\<close> is the one way out of the process. It is a parameter of
  every adapter: a function from the URL and the query parameters to the parsed body, or
  to the exception \<^verbatim>\<open>raise_for_status\<close> and \<^verbatim>\<open>r.json()\<close> raise.
\<close>

type_synonym http = "string \<Rightarrow> (string \<times> string) list \<Rightarrow> py_error + json"

definition TMDB_BASE :: string where
  "TMDB_BASE = ''https://api.themoviedb.org/3''"

definition IA_SEARCH :: string where
  "IA_SEARCH = ''https://archive.org/advancedsearch.php''"

definition IA_META :: "json \<Rightarrow> string" where
  "IA_META ident = ''https://archive.org/metadata/'' @ py_format ident"

definition VIDEO_EXTS :: "string set" where
  "VIDEO_EXTS = {''mp4'', ''m4v'', ''webm'', ''ogv''}"

text \<open>The dict every TMDB adapter builds for one title.\<close>

record search_result =
  r_id :: json
  r_media_type :: json
  r_title :: json
  r_year :: json
  r_poster :: json

text \<open>\<^verbatim>\<open>item.get(k1) or item.get(k2)\<close>.\<close>

definition get_or :: "json \<Rightarrow> string \<Rightarrow> string \<Rightarrow> py_error + json" where
  "get_or item k1 k2 =
     ebind (py_get item k1 JNull) (\<lambda>a. if truthy a then Inr a else py_get item k2 JNull)"

text \<open>\<^verbatim>\<open>(item.get("release_date") or item.get("first_air_date") or "")[:4]\<close>.\<close>

definition year_of :: "json \<Rightarrow> py_error + json" where
  "year_of item =
     ebind (get_or item ''release_date'' ''first_air_date'')
       (\<lambda>d. py_slice_to 4 (py_or d (JStr [])))"

subsection \<open>\<^verbatim>\<open>tmdb_search\<close>\<close>

text \<open>
  One turn of the loop of \<^verbatim>\<open>tmdb_search\<close>: \<open>None\<close> is the \<^verbatim>\<open>continue\<close>, \<open>Some r\<close> the
  dict appended to \<^verbatim>\<open>results\<close>.
\<close>

definition search_item :: "json \<Rightarrow> py_error + search_result option" where
  "search_item item =
     ebind (py_get item ''media_type'' JNull) (\<lambda>media_type.
       if media_type \<noteq> JStr ''movie'' \<and> media_type \<noteq> JStr ''tv'' then Inr None
       else
         ebind (get_or item ''title'' ''name'') (\<lambda>title.
         ebind (py_get item ''id'' JNull) (\<lambda>ident.
         ebind (year_of item) (\<lambda>year.
         ebind (py_get item ''poster_path'' JNull) (\<lambda>poster.
           Inr (Some \<lparr>r_id = ident, r_media_type = media_type, r_title = title,
                      r_year = year, r_poster = poster\<rparr>))))))"

fun search_loop :: "json list \<Rightarrow> py_error + search_result list" where
  "search_loop [] = Inr []"
| "search_loop (item # rest) =
     (case search_item item of
        Inl e \<Rightarrow> Inl e
      | Inr None \<Rightarrow> search_loop rest
      | Inr (Some r) \<Rightarrow> (case search_loop rest of Inl e \<Rightarrow> Inl e | Inr rs \<Rightarrow> Inr (r # rs)))"

definition tmdb_search :: "http \<Rightarrow> string \<Rightarrow> string \<Rightarrow> py_error + search_result list" where
  "tmdb_search http api_key query =
     ebind (http (TMDB_BASE @ ''/search/multi'')
              [(''api_key'', api_key), (''query'', query), (''include_adult'', ''false''),
               (''language'', ''en-US''), (''page'', ''1'')]) (\<lambda>data.
     ebind (py_get data ''results'' (JArr [])) (\<lambda>res.
     ebind (py_slice_to 10 res) (\<lambda>page.
     ebind (py_iter page) search_loop)))"

subsection \<open>\<^verbatim>\<open>tmdb_videos\<close>\<close>

definition watch_url :: "json \<Rightarrow> string" where
  "watch_url key = ''https://www.youtube.com/watch?v='' @ py_format key"

text \<open>The test of the loop: the second \<^verbatim>\<open>get\<close> runs only when the first comparison holds.\<close>

definition is_trailer :: "json \<Rightarrow> py_error + bool" where
  "is_trailer v =
     ebind (py_get v ''site'' JNull) (\<lambda>site.
       if site = JStr ''YouTube''
       then ebind (py_get v ''type'' JNull) (\<lambda>t. Inr (t = JStr ''Trailer'' \<or> t = JStr ''Teaser''))
       else Inr False)"

fun videos_loop :: "json list \<Rightarrow> py_error + string option" where
  "videos_loop [] = Inr None"
| "videos_loop (v # vs) =
     (case is_trailer v of
        Inl e \<Rightarrow> Inl e
      | Inr True \<Rightarrow> ebind (py_get v ''key'' JNull) (\<lambda>key. Inr (Some (watch_url key)))
      | Inr False \<Rightarrow> videos_loop vs)"

definition tmdb_videos :: "http \<Rightarrow> string \<Rightarrow> string \<Rightarrow> int \<Rightarrow> py_error + string option" where
  "tmdb_videos http api_key media_type tmdb_id =
     ebind (http (TMDB_BASE @ ''/'' @ media_type @ ''/'' @ py_str tmdb_id @ ''/videos'')
              [(''api_key'', api_key)]) (\<lambda>data.
     ebind (py_get data ''results'' (JArr [])) (\<lambda>res.
     ebind (py_iter res) videos_loop))"

subsection \<open>\<^verbatim>\<open>tmdb_similar\<close>\<close>

definition similar_item :: "string \<Rightarrow> json \<Rightarrow> py_error + search_result" where
  "similar_item media_type item =
     ebind (get_or item ''title'' ''name'') (\<lambda>title.
     ebind (py_get item ''id'' JNull) (\<lambda>ident.
     ebind (year_of item) (\<lambda>year.
     ebind (py_get item ''poster_path'' JNull) (\<lambda>poster.
       Inr \<lparr>r_id = ident, r_media_type = JStr media_type, r_title = title,
            r_year = year, r_poster = poster\<rparr>))))"

fun similar_loop :: "string \<Rightarrow> json list \<Rightarrow> py_error + search_result list" where
  "similar_loop media_type [] = Inr []"
| "similar_loop media_type (item # rest) =
     (case similar_item media_type item of
        Inl e \<Rightarrow> Inl e
      | Inr r \<Rightarrow> (case similar_loop media_type rest of Inl e \<Rightarrow> Inl e | Inr rs \<Rightarrow> Inr (r # rs)))"

definition tmdb_similar :: "http \<Rightarrow> string \<Rightarrow> string \<Rightarrow> int \<Rightarrow> py_error + search_result list" where
  "tmdb_similar http api_key media_type tmdb_id =
     ebind (http (TMDB_BASE @ ''/'' @ media_type @ ''/'' @ py_str tmdb_id @ ''/similar'')
              [(''api_key'', api_key), (''language'', ''en-US''), (''page'', ''1'')]) (\<lambda>data.
     ebind (py_get data ''results'' (JArr [])) (\<lambda>res.
     ebind (py_slice_to 10 res) (\<lambda>page.
     ebind (py_iter page) (similar_loop media_type))))"

subsection \<open>\<^verbatim>\<open>ia_search_public_domain\<close>\<close>

record archive_item =
  ia_identifier :: json
  ia_title :: json
  ia_year :: json
  ia_licenseurl :: json
  ia_links :: "string list"

text \<open>\<^verbatim>\<open>name.split(".")[-1].lower()\<close>.\<close>

definition file_ext :: "string \<Rightarrow> string" where
  "file_ext name = lower (last (split_on CHR ''.'' name))"

definition keep_file :: "string \<Rightarrow> bool" where
  "keep_file name = (file_ext name \<in> VIDEO_EXTS \<and> \<not> endswith name ''.thumbs'')"

definition download_link :: "json \<Rightarrow> string \<Rightarrow> string" where
  "download_link ident name = ''https://archive.org/download/'' @ py_format ident @ ''/'' @ name"

text \<open>
  The inner loop over \<^verbatim>\<open>files\<close>. \<^verbatim>\<open>name.split\<close> exists on a string only; any other value
  under \<^verbatim>\<open>name\<close> raises.
\<close>

fun files_loop :: "json \<Rightarrow> json list \<Rightarrow> py_error + string list" where
  "files_loop ident [] = Inr []"
| "files_loop ident (f # fs) =
     (case py_get f ''name'' (JStr []) of
        Inl e \<Rightarrow> Inl e
      | Inr (JStr name) \<Rightarrow>
          (case files_loop ident fs of
             Inl e \<Rightarrow> Inl e
           | Inr links \<Rightarrow> Inr (if keep_file name then download_link ident name # links else links))
      | Inr v \<Rightarrow> Inl (no_attribute v ''split''))"

text \<open>One turn of the outer loop: \<open>None\<close> when no link survives.\<close>

definition ia_doc :: "http \<Rightarrow> json \<Rightarrow> py_error + archive_item option" where
  "ia_doc http d =
     ebind (py_get d ''identifier'' JNull) (\<lambda>ident.
     ebind (http (IA_META ident) []) (\<lambda>meta.
     ebind (py_get meta ''files'' (JArr [])) (\<lambda>files_v.
     ebind (py_iter files_v) (\<lambda>files.
     ebind (files_loop ident files) (\<lambda>file_links.
       if file_links \<noteq> [] then
         ebind (py_get d ''title'' JNull) (\<lambda>title.
         ebind (py_get d ''year'' JNull) (\<lambda>year.
         ebind (py_get d ''licenseurl'' JNull) (\<lambda>lic.
           Inr (Some \<lparr>ia_identifier = ident, ia_title = title, ia_year = year,
                      ia_licenseurl = lic, ia_links = take 5 file_links\<rparr>))))
       else Inr None)))))"

fun ia_loop :: "http \<Rightarrow> json list \<Rightarrow> py_error + archive_item list" where
  "ia_loop http [] = Inr []"
| "ia_loop http (d # ds) =
     (case ia_doc http d of
        Inl e \<Rightarrow> Inl e
      | Inr None \<Rightarrow> ia_loop http ds
      | Inr (Some it) \<Rightarrow> (case ia_loop http ds of Inl e \<Rightarrow> Inl e | Inr its \<Rightarrow> Inr (it # its)))"

definition ia_search_public_domain :: "http \<Rightarrow> string \<Rightarrow> int \<Rightarrow> py_error + archive_item list" where
  "ia_search_public_domain http title limit =
     ebind (http IA_SEARCH
              [(''q'', ''title:('' @ [CHR 0x22] @ title @ [CHR 0x22]
                      @ '') AND mediatype:(movies OR video) AND licenseurl:*''),
               (''fl[]'', ''identifier''), (''fl[]'', ''title''), (''fl[]'', ''year''),
               (''fl[]'', ''licenseurl''), (''sort[]'', ''downloads desc''),
               (''rows'', py_str limit), (''page'', ''1''), (''output'', ''json'')]) (\<lambda>data.
     ebind (py_get data ''response'' (JObj [])) (\<lambda>resp.
     ebind (py_get resp ''docs'' (JArr [])) (\<lambda>docs_v.
     ebind (py_iter docs_v) (ia_loop http))))"

section \<open>The handlers\<close>

text \<open>
  A handler receives the update and the context, talks to the chat platform, and may
  change \<^verbatim>\<open>context.bot_data\<close>. The model passes the state explicitly: a handler returns
  the new \<^verbatim>\<open>bot_data\<close>, the calls it made on the chat platform in order, and the exception
  that left the handler, if one did.
\<close>

text \<open>
  The settings read from the environment at import time. \<^verbatim>\<open>ADMIN_USER_IDS\<close> is the parsed
  set of line 34.
\<close>

record config =
  TMDB_API_KEY :: string
  WATCH_REGION :: string
  ADMIN_USER_IDS :: "int fset"
  APP_BRAND :: string
  APP_TAGLINE :: string

text \<open>
  \<^verbatim>\<open>context.bot_data\<close>: the key \<^verbatim>\<open>"recent_chats"\<close> is absent (\<open>None\<close>) until
  \<^verbatim>\<open>setdefault\<close> creates the set.
\<close>

record bot_data =
  recent_chats :: "int fset option"

record callback_query =
  cq_data :: "string option"

text \<open>
  The fields of the update the handlers read: the identifiers of the chat and of the
  user, the text of the message, the callback query of a button press.
\<close>

record update =
  effective_chat :: "int option"
  effective_user :: "int option"
  message_text :: "string option"
  callback_query :: "callback_query option"

text \<open>
  \<^verbatim>\<open>context.args\<close> is filled by the framework for a command (the words after the command)
  and is \<^verbatim>\<open>None\<close> otherwise.
\<close>

record bot_context =
  args :: "string list option"
  bot_data :: bot_data

text \<open>
  The calls on the chat platform. A button is its label (the value passed as the text)
  and its callback data; every keyboard of the bot has one button per row.
\<close>

datatype action =
    ChatActionTyping
  | ReplyText string
  | ReplyKeyboard string "(json \<times> string) list"
  | Answer
  | EditMessageText string
  | SendMessage int string

type_synonym effect = "action list \<times> py_error option"

type_synonym outcome = "bot_data \<times> action list \<times> py_error option"

definition nl :: string where
  "nl = [CHR 0x0A]"

definition bullet :: string where
  "bullet = [CHR 0xE2, CHR 0x80, CHR 0xA2]"

text \<open>\<^verbatim>\<open>html.escape(s)\<close>, with \<^verbatim>\<open>quote=True\<close>.\<close>

definition html_escape_char :: "char \<Rightarrow> string" where
  "html_escape_char c =
     (if c = CHR ''&'' then ''&amp;''
      else if c = CHR ''<'' then ''&lt;''
      else if c = CHR ''>'' then ''&gt;''
      else if c = CHR 0x22 then ''&quot;''
      else if c = CHR 0x27 then ''&#x27;''
      else [c])"

definition html_escape :: "string \<Rightarrow> string" where
  "html_escape s = concat (map html_escape_char s)"

definition SPLASH :: "string \<Rightarrow> string \<Rightarrow> string \<Rightarrow> string" where
  "SPLASH brand tag region =
     ''<b>'' @ brand @ ''</b>'' @ nl
     @ ''<i>'' @ tag @ ''</i>'' @ nl @ nl
     @ ''Yeh bot aapko movies/series ki <b>legal</b> information deta hai:'' @ nl
     @ bullet @ '' Search + details + poster'' @ nl
     @ bullet @ '' '' @ region @ '' me kaha stream ho rahi hai (legal providers)'' @ nl
     @ bullet @ '' Public-domain/CC licensed videos ke legal download links (Internet Archive)'' @ nl
     @ bullet @ '' Similar recommendations'' @ nl
     @ bullet @ '' Aaj ke trending (TMDB)'' @ nl @ nl
     @ ''Use: /search <movie ya series ka naam>'' @ nl
     @ ''Try: /trending''"

definition start :: "config \<Rightarrow> update \<Rightarrow> bot_context \<Rightarrow> outcome" where
  "start cfg upd ctx =
     (bot_data ctx,
      [ChatActionTyping,
       ReplyText (SPLASH (html_escape (APP_BRAND cfg)) (html_escape (APP_TAGLINE cfg)) (WATCH_REGION cfg))],
      None)"

subsection \<open>\<^verbatim>\<open>search_cmd\<close>\<close>

text \<open>
  The button of one result (lines 196 to 199). The label is \<^verbatim>\<open>title[:60]\<close>, where
  \<^verbatim>\<open>title\<close> is the formatted text when the year is not empty and \<^verbatim>\<open>r['title']\<close> itself
  otherwise.
\<close>

definition search_button :: "search_result \<Rightarrow> py_error + (json \<times> string)" where
  "search_button r =
     (let title = (if truthy (r_year r)
                   then JStr (py_format (r_title r) @ '' ('' @ py_format (r_year r) @ '')'')
                   else r_title r);
          cbdata = ''pick|'' @ py_format (r_media_type r) @ ''|'' @ py_format (r_id r)
      in ebind (py_slice_to 60 title) (\<lambda>label. Inr (label, cbdata)))"

fun keyboard_loop :: "search_result list \<Rightarrow> py_error + (json \<times> string) list" where
  "keyboard_loop [] = Inr []"
| "keyboard_loop (r # rs) =
     (case search_button r of
        Inl e \<Rightarrow> Inl e
      | Inr b \<Rightarrow> (case keyboard_loop rs of Inl e \<Rightarrow> Inl e | Inr bs \<Rightarrow> Inr (b # bs)))"

text \<open>
  \<^verbatim>\<open>search_cmd\<close> reads the query from \<^verbatim>\<open>context.args\<close> and from nowhere else;
  \<^verbatim>\<open>" ".join(None)\<close> raises \<^verbatim>\<open>TypeError\<close>.
\<close>

definition search_cmd :: "config \<Rightarrow> http \<Rightarrow> update \<Rightarrow> bot_context \<Rightarrow> outcome" where
  "search_cmd cfg http upd ctx =
     (case args ctx of
        None \<Rightarrow> (bot_data ctx, [], Some (TypeError ''can only join an iterable''))
      | Some ws \<Rightarrow>
          (let query = strip (join '' '' ws) in
           if query = [] then
             (bot_data ctx, [ReplyText ''Please type: /search <movie/series name>''], None)
           else if TMDB_API_KEY cfg = [] then
             (bot_data ctx, [ReplyText ''TMDB_API_KEY missing. Set env var and restart bot.''], None)
           else
             (case tmdb_search http (TMDB_API_KEY cfg) query of
                Inl e \<Rightarrow>
                  (bot_data ctx,
                   [ChatActionTyping, ReplyText (''TMDB error: '' @ str_of_error e)], None)
              | Inr results \<Rightarrow>
                  if results = [] then
                    (bot_data ctx, [ChatActionTyping, ReplyText ''Koi result nahi mila.''], None)
                  else
                    (case keyboard_loop results of
                       Inl e \<Rightarrow> (bot_data ctx, [ChatActionTyping], Some e)
                     | Inr keyboard \<Rightarrow>
                         (bot_data ctx,
                          [ChatActionTyping, ReplyKeyboard ''Select one:'' keyboard], None)))))"

subsection \<open>\<^verbatim>\<open>on_text_fallback\<close>\<close>

text \<open>\<^verbatim>\<open>context.bot_data.setdefault("recent_chats", set())\<close>.\<close>

definition setdefault_recent_chats :: "bot_data \<Rightarrow> bot_data" where
  "setdefault_recent_chats bd =
     (case recent_chats bd of None \<Rightarrow> bd\<lparr>recent_chats := Some {||}\<rparr> | Some chats \<Rightarrow> bd)"

text \<open>\<^verbatim>\<open>chats.add(c)\<close> on the set stored under the key.\<close>

definition add_chat :: "int \<Rightarrow> bot_data \<Rightarrow> bot_data" where
  "add_chat c bd =
     (case recent_chats bd of None \<Rightarrow> bd | Some chats \<Rightarrow> bd\<lparr>recent_chats := Some (finsert c chats)\<rparr>)"

text \<open>
  The handler rewrites \<^verbatim>\<open>update.message.text\<close> and calls \<^verbatim>\<open>search_cmd\<close> with the same
  context. The message is an object of the framework, and whether its attribute can be
  assigned is the framework's: \<open>assign_text\<close> is the outcome of the assignment of line 331
  for the text assigned, \<open>None\<close> when it succeeds and the exception when it raises (as
  it does on a message the framework has frozen). The chat is recorded before.
\<close>

type_synonym assignment = "string \<Rightarrow> py_error option"

definition on_text_fallback ::
  "config \<Rightarrow> http \<Rightarrow> assignment \<Rightarrow> update \<Rightarrow> bot_context \<Rightarrow> outcome" where
  "on_text_fallback cfg http assign_text upd ctx =
     (let bd1 = setdefault_recent_chats (bot_data ctx);
          bd2 = (case effective_chat upd of None \<Rightarrow> bd1 | Some c \<Rightarrow> add_chat c bd1);
          q = strip (case message_text upd of None \<Rightarrow> [] | Some t \<Rightarrow> t)
      in if q = [] then (bd2, [], None)
         else
           (case assign_text (''/search '' @ q) of
              Some e \<Rightarrow> (bd2, [], Some e)
            | None \<Rightarrow>
                search_cmd cfg http (upd\<lparr>message_text := Some (''/search '' @ q)\<rparr>)
                  (ctx\<lparr>bot_data := bd2\<rparr>)))"

subsection \<open>\<^verbatim>\<open>cmd_broadcast\<close>\<close>

definition is_admin :: "config \<Rightarrow> int \<Rightarrow> bool" where
  "is_admin cfg user_id = (user_id |\<in>| ADMIN_USER_IDS cfg)"

text \<open>
  \<^verbatim>\<open>context.bot.send_message\<close> is a parameter: for a chat and a text it succeeds
  (\<open>None\<close>) or raises. The loop counts the successes and drops the exceptions; a message
  that was sent is recorded as \<open>SendMessage\<close>.
\<close>

type_synonym sender = "int \<Rightarrow> string \<Rightarrow> py_error option"

fun broadcast_loop :: "sender \<Rightarrow> string \<Rightarrow> int list \<Rightarrow> nat \<times> action list" where
  "broadcast_loop send msg [] = (0, [])"
| "broadcast_loop send msg (chat_id # rest) =
     (let (sent, acts) = broadcast_loop send msg rest in
      case send chat_id msg of
        None \<Rightarrow> (Suc sent, SendMessage chat_id msg # acts)
      | Some e \<Rightarrow> (sent, acts))"

text \<open>
  \<^verbatim>\<open>list(chats)\<close> lists the set in the order of its hash table. The order is a
  parameter, \<open>order\<close>: a function from the set to a list of its elements.
\<close>

definition cmd_broadcast ::
  "config \<Rightarrow> sender \<Rightarrow> (int fset \<Rightarrow> int list) \<Rightarrow> update \<Rightarrow> bot_context \<Rightarrow> outcome" where
  "cmd_broadcast cfg send order upd ctx =
     (if (case effective_user upd of None \<Rightarrow> True | Some uid \<Rightarrow> \<not> is_admin cfg uid) then
        (bot_data ctx, [ReplyText ''Not authorized.''], None)
      else
        (case args ctx of
           None \<Rightarrow> (bot_data ctx, [], Some (TypeError ''can only join an iterable''))
         | Some ws \<Rightarrow>
             (let msg = strip (join '' '' ws) in
              if msg = [] then (bot_data ctx, [ReplyText ''Usage: /broadcast <message>''], None)
              else
                (let chats = (case recent_chats (bot_data ctx) of None \<Rightarrow> {||} | Some s \<Rightarrow> s);
                     (sent, acts) = broadcast_loop send msg (order chats)
                 in (bot_data ctx,
                     acts @ [ReplyText (''Broadcast sent to ~'' @ py_str (int sent) @ '' chats.'')],
                     None)))))"

subsection \<open>Callback data: the buttons of \<^verbatim>\<open>on_pick\<close>\<close>

text \<open>
  The callback data of the four buttons under a detail message (lines 220 to 225).
  There \<^verbatim>\<open>media_type\<close> is a string and \<^verbatim>\<open>tmdb_id\<close> an integer (line 205), and
  \<^verbatim>\<open>title\<close> is a string, since \<^verbatim>\<open>html.escape(title)\<close> has returned on line 218.
\<close>

definition prov_data :: "string \<Rightarrow> int \<Rightarrow> string" where
  "prov_data media_type tmdb_id = ''prov|'' @ media_type @ ''|'' @ py_str tmdb_id"

definition trailer_data :: "string \<Rightarrow> int \<Rightarrow> string" where
  "trailer_data media_type tmdb_id = ''trailer|'' @ media_type @ ''|'' @ py_str tmdb_id"

definition pd_data :: "string \<Rightarrow> int \<Rightarrow> string \<Rightarrow> string" where
  "pd_data media_type tmdb_id title =
     ''pd|'' @ media_type @ ''|'' @ py_str tmdb_id @ ''|'' @ replace_char CHR ''|'' CHR '' '' title"

definition rec_data :: "string \<Rightarrow> int \<Rightarrow> string" where
  "rec_data media_type tmdb_id = ''rec|'' @ media_type @ ''|'' @ py_str tmdb_id"

definition pick_buttons :: "string \<Rightarrow> int \<Rightarrow> string \<Rightarrow> (json \<times> string) list" where
  "pick_buttons media_type tmdb_id title =
     [(JStr ''Where to Watch (IN)'', prov_data media_type tmdb_id),
      (JStr ''Trailer'', trailer_data media_type tmdb_id),
      (JStr ''Public-Domain Downloads'', pd_data media_type tmdb_id title),
      (JStr ''Recommendations'', rec_data media_type tmdb_id)]"

subsection \<open>\<^verbatim>\<open>callback_router\<close>\<close>

text \<open>
  \<^verbatim>\<open>_, media_type, id_str = parts\<close> followed by \<^verbatim>\<open>int(id_str)\<close>: the unpacking raises
  \<^verbatim>\<open>ValueError\<close> unless there are exactly three parts. \<^verbatim>\<open>on_pick\<close> decodes its data with
  the same two steps (line 205).
\<close>

definition unpack3 :: "string list \<Rightarrow> py_error + (string \<times> int)" where
  "unpack3 parts =
     (case parts of
        [tag, media_type, id_str] \<Rightarrow> ebind (py_int id_str) (\<lambda>tmdb_id. Inr (media_type, tmdb_id))
      | _ \<Rightarrow>
          Inl (ValueError
                 (if length parts < 3
                  then ''not enough values to unpack (expected 3, got ''
                       @ py_str (int (length parts)) @ '')''
                  else ''too many values to unpack (expected 3)'')))"

text \<open>What the router decides from the data, before it calls a handler.\<close>

datatype route =
    Pick
  | Providers string int
  | Trailer string int
  | PublicDomain string
  | Recommend string int
  | Unrecognized

definition decode :: "string \<Rightarrow> py_error + route" where
  "decode d =
     (let parts = split_on CHR ''|'' d; tag = hd parts in
      if tag = ''pick'' then Inr Pick
      else if tag = ''prov'' then ebind (unpack3 parts) (\<lambda>(m, i). Inr (Providers m i))
      else if tag = ''trailer'' then ebind (unpack3 parts) (\<lambda>(m, i). Inr (Trailer m i))
      else if tag = ''pd'' then Inr (PublicDomain (join ''|'' (drop 3 parts)))
      else if tag = ''rec'' then ebind (unpack3 parts) (\<lambda>(m, i). Inr (Recommend m i))
      else Inr Unrecognized)"

text \<open>
  The five handlers the router calls are parameters: each is any procedure that makes
  calls on the chat platform and then returns or raises (its result is the actions it
  made and the exception that left it, if any). \<^verbatim>\<open>on_pick\<close> reads the data of the query
  itself.
\<close>

record handlers =
  on_pick :: "string \<Rightarrow> effect"
  on_providers :: "string \<Rightarrow> int \<Rightarrow> effect"
  on_trailer :: "string \<Rightarrow> int \<Rightarrow> effect"
  on_public_domain :: "string \<Rightarrow> effect"
  on_recommend :: "string \<Rightarrow> int \<Rightarrow> effect"

text \<open>
  The two calls the router itself makes on the chat platform, \<^verbatim>\<open>q.answer()\<close> (line 355)
  and \<^verbatim>\<open>q.edit_message_text(text)\<close> (line 357), are parameters as well: each returns
  (\<open>None\<close>) or raises. A call that raised has changed nothing and leaves no action.
\<close>

record platform =
  answer :: "py_error option"
  edit_message_text :: "string \<Rightarrow> py_error option"

text \<open>
  The branch of the \<^verbatim>\<open>try\<close> body a route selects. \<^verbatim>\<open>q.answer()\<close> is inside the
  \<^verbatim>\<open>try\<close>, so its exception is raised there like that of a handler.
\<close>

definition run_route :: "platform \<Rightarrow> handlers \<Rightarrow> string \<Rightarrow> route \<Rightarrow> effect" where
  "run_route P H d r =
     (case r of
        Pick \<Rightarrow> on_pick H d
      | Providers m i \<Rightarrow> on_providers H m i
      | Trailer m i \<Rightarrow> on_trailer H m i
      | PublicDomain title \<Rightarrow> on_public_domain H title
      | Recommend m i \<Rightarrow> on_recommend H m i
      | Unrecognized \<Rightarrow> (case answer P of None \<Rightarrow> ([Answer], None) | Some e \<Rightarrow> ([], Some e)))"

text \<open>The text of the \<^verbatim>\<open>except\<close> clause, \<^verbatim>\<open>f"Error: {e}"\<close>, and the edit that shows it.\<close>

definition error_text :: "py_error \<Rightarrow> string" where
  "error_text e = ''Error: '' @ str_of_error e"

definition error_edit :: "py_error \<Rightarrow> action" where
  "error_edit e = EditMessageText (error_text e)"

text \<open>The body of the \<^verbatim>\<open>try\<close>: the actions made, and the exception raised in it, if any.\<close>

definition try_route :: "platform \<Rightarrow> handlers \<Rightarrow> string \<Rightarrow> effect" where
  "try_route P H d =
     (case decode d of
        Inl e \<Rightarrow> ([], Some e)
      | Inr r \<Rightarrow> run_route P H d r)"

text \<open>
  The router. The \<^verbatim>\<open>except Exception\<close> clause edits the message the button is on; that
  edit is not guarded, so an exception it raises leaves the router.
\<close>

definition callback_router :: "platform \<Rightarrow> handlers \<Rightarrow> update \<Rightarrow> bot_context \<Rightarrow> outcome" where
  "callback_router P H upd ctx =
     (case callback_query upd of
        None \<Rightarrow> (bot_data ctx, [], None)
      | Some q \<Rightarrow>
          (case cq_data q of
             None \<Rightarrow> (bot_data ctx, [], None)
           | Some d \<Rightarrow>
               if d = [] then (bot_data ctx, [], None)
               else
                 (case try_route P H d of
                    (acts, None) \<Rightarrow> (bot_data ctx, acts, None)
                  | (acts, Some e) \<Rightarrow>
                      (case edit_message_text P (error_text e) of
                         None \<Rightarrow> (bot_data ctx, acts @ [error_edit e], None)
                       | Some e' \<Rightarrow> (bot_data ctx, acts, Some e')))))"

section \<open>Notions the properties are stated with\<close>

text \<open>
  The set the broadcast goes to: \<^verbatim>\<open>context.bot_data.get("recent_chats", set())\<close>, the
  empty set while the key is absent.
\<close>

definition known_chats :: "bot_data \<Rightarrow> int fset" where
  "known_chats bd = (case recent_chats bd of None \<Rightarrow> {||} | Some chats \<Rightarrow> chats)"

text \<open>The chats for which sending the text raises.\<close>

definition failing :: "sender \<Rightarrow> string \<Rightarrow> int fset \<Rightarrow> int fset" where
  "failing send msg chats = ffilter (\<lambda>c. send c msg \<noteq> None) chats"

definition is_send :: "action \<Rightarrow> bool" where
  "is_send a = (case a of SendMessage c t \<Rightarrow> True | _ \<Rightarrow> False)"

definition delivered :: "sender \<Rightarrow> string \<Rightarrow> int list \<Rightarrow> int list" where
  "delivered send msg cs = filter (\<lambda>c. send c msg = None) cs"


text \<open>The value of a field of a JSON object, \<open>JNull\<close> when the key is absent.\<close>

definition field :: "json \<Rightarrow> string \<Rightarrow> json" where
  "field v k = (case v of JObj kvs \<Rightarrow> (case map_of kvs k of None \<Rightarrow> JNull | Some x \<Rightarrow> x) | _ \<Rightarrow> JNull)"

definition is_object :: "json \<Rightarrow> bool" where
  "is_object v = (case v of JObj kvs \<Rightarrow> True | _ \<Rightarrow> False)"

text \<open>
  The entry the trailer adapter is specified to pick: hosted on the expected video
  platform, and of type Trailer or Teaser.
\<close>

definition is_youtube_trailer :: "json \<Rightarrow> bool" where
  "is_youtube_trailer v =
     (field v ''site'' = JStr ''YouTube''
      \<and> (field v ''type'' = JStr ''Trailer'' \<or> field v ''type'' = JStr ''Teaser''))"

definition first_trailer_url :: "json list \<Rightarrow> string option" where
  "first_trailer_url vs = map_option (\<lambda>v. watch_url (field v ''key'')) (find is_youtube_trailer vs)"

definition videos_endpoint :: "string \<Rightarrow> int \<Rightarrow> string" where
  "videos_endpoint media_type tmdb_id = TMDB_BASE @ ''/'' @ media_type @ ''/'' @ py_str tmdb_id @ ''/videos''"

text \<open>
  A search item the adapters can reduce: an object whose two date fields are text or
  absent. \<open>reduced kind item\<close> is the dict the adapters build for it.
\<close>

definition text_or_absent :: "json \<Rightarrow> bool" where
  "text_or_absent v = (case v of JNull \<Rightarrow> True | JStr s \<Rightarrow> True | _ \<Rightarrow> False)"

definition plain_item :: "json \<Rightarrow> bool" where
  "plain_item item =
     (is_object item \<and> text_or_absent (field item ''release_date'')
      \<and> text_or_absent (field item ''first_air_date''))"

definition year_text :: "json \<Rightarrow> json" where
  "year_text item =
     (case py_or (py_or (field item ''release_date'') (field item ''first_air_date'')) (JStr []) of
        JStr s \<Rightarrow> JStr (take 4 s)
      | v \<Rightarrow> v)"

definition reduced :: "json \<Rightarrow> json \<Rightarrow> search_result" where
  "reduced kind item =
     \<lparr>r_id = field item ''id'', r_media_type = kind,
      r_title = py_or (field item ''title'') (field item ''name''),
      r_year = year_text item, r_poster = field item ''poster_path''\<rparr>"

definition movie_or_tv :: "json \<Rightarrow> bool" where
  "movie_or_tv item = (field item ''media_type'' = JStr ''movie'' \<or> field item ''media_type'' = JStr ''tv'')"

definition search_params :: "string \<Rightarrow> string \<Rightarrow> (string \<times> string) list" where
  "search_params api_key query =
     [(''api_key'', api_key), (''query'', query), (''include_adult'', ''false''),
      (''language'', ''en-US''), (''page'', ''1'')]"

definition similar_endpoint :: "string \<Rightarrow> int \<Rightarrow> string" where
  "similar_endpoint media_type tmdb_id = TMDB_BASE @ ''/'' @ media_type @ ''/'' @ py_str tmdb_id @ ''/similar''"

definition similar_params :: "string \<Rightarrow> (string \<times> string) list" where
  "similar_params api_key = [(''api_key'', api_key), (''language'', ''en-US''), (''page'', ''1'')]"

text \<open>
  An item of the archive adapter's result as the claim describes it, and the archive
  answers the adapter can read: every file is an object whose \<^verbatim>\<open>name\<close> is text or absent.
\<close>

definition item_ok :: "archive_item \<Rightarrow> bool" where
  "item_ok it =
     (ia_links it \<noteq> [] \<and> length (ia_links it) \<le> 5
      \<and> (\<forall>l\<in>set (ia_links it).
            \<exists>name. l = download_link (ia_identifier it) name \<and> file_ext name \<in> VIDEO_EXTS))"

definition ia_params :: "string \<Rightarrow> int \<Rightarrow> (string \<times> string) list" where
  "ia_params title limit =
     [(''q'', ''title:('' @ [CHR 0x22] @ title @ [CHR 0x22]
              @ '') AND mediatype:(movies OR video) AND licenseurl:*''),
      (''fl[]'', ''identifier''), (''fl[]'', ''title''), (''fl[]'', ''year''),
      (''fl[]'', ''licenseurl''), (''sort[]'', ''downloads desc''),
      (''rows'', py_str limit), (''page'', ''1''), (''output'', ''json'')]"

definition named_file :: "json \<Rightarrow> bool" where
  "named_file f =
     (case f of
        JObj kvs \<Rightarrow> (case map_of kvs ''name'' of None \<Rightarrow> True | Some (JStr s) \<Rightarrow> True | Some v \<Rightarrow> False)
      | _ \<Rightarrow> False)"

definition doc_ok :: "http \<Rightarrow> json \<Rightarrow> bool" where
  "doc_ok http d =
     (is_object d
      \<and> (case http (IA_META (field d ''identifier'')) [] of
           Inr (JObj kvs) \<Rightarrow>
             (case map_of kvs ''files'' of
                None \<Rightarrow> True
              | Some (JArr fs) \<Rightarrow> list_all named_file fs
              | Some v \<Rightarrow> False)
         | _ \<Rightarrow> False))"

section \<open>Example inputs\<close>

text \<open>
  Concrete responses, updates and platform behaviours at which the properties below are
  instantiated. \<open>photo_handlers\<close> and \<open>refusing_platform\<close> are a press on a message that
  has a caption and no text, as the photo message of line 230 is: every edit of its text
  is refused.
\<close>

definition similar_response :: json where
  "similar_response =
     JObj [(''page'', JInt 1),
           (''results'', JArr [
              JObj [(''id'', JInt 1396), (''name'', JStr ''Breaking Bad''),
                    (''media_type'', JStr ''movie''), (''first_air_date'', JStr ''2008-01-20'')],
              JObj [(''id'', JInt 60059), (''title'', JStr []), (''name'', JStr ''Better Call Saul'')]])]"

definition similar_expected :: "search_result list" where
  "similar_expected =
     [\<lparr>r_id = JInt 1396, r_media_type = JStr ''tv'', r_title = JStr ''Breaking Bad'',
       r_year = JStr ''2008'', r_poster = JNull\<rparr>,
      \<lparr>r_id = JInt 60059, r_media_type = JStr ''tv'', r_title = JStr ''Better Call Saul'',
       r_year = JStr [], r_poster = JNull\<rparr>]"

definition search_response :: json where
  "search_response =
     JObj [(''page'', JInt 1),
           (''results'', JArr [
              JObj [(''id'', JInt 10435), (''media_type'', JStr ''movie''),
                    (''title'', JStr ''Chaplin''), (''release_date'', JStr ''1992-12-17''),
                    (''poster_path'', JStr ''/chaplin.jpg'')],
              JObj [(''id'', JInt 13848), (''media_type'', JStr ''person''),
                    (''name'', JStr ''Charlie Chaplin'')],
              JObj [(''id'', JInt 4553), (''media_type'', JStr ''tv''),
                    (''name'', JStr ''Chaplin Today'')]])]"

definition search_expected :: "search_result list" where
  "search_expected =
     [\<lparr>r_id = JInt 10435, r_media_type = JStr ''movie'', r_title = JStr ''Chaplin'',
       r_year = JStr ''1992'', r_poster = JStr ''/chaplin.jpg''\<rparr>,
      \<lparr>r_id = JInt 4553, r_media_type = JStr ''tv'', r_title = JStr ''Chaplin Today'',
       r_year = JStr [], r_poster = JNull\<rparr>]"

definition videos_response :: "(string \<times> json) list" where
  "videos_response =
     [(''id'', JInt 603),
      (''results'', JArr [
         JObj [(''site'', JStr ''Vimeo''), (''type'', JStr ''Trailer''), (''key'', JStr ''v1'')],
         JObj [(''site'', JStr ''YouTube''), (''type'', JStr ''Featurette''), (''key'', JStr ''f1'')],
         JObj [(''site'', JStr ''YouTube''), (''type'', JStr ''Teaser''), (''key'', JStr ''t1'')],
         JObj [(''site'', JStr ''YouTube''), (''type'', JStr ''Trailer''), (''key'', JStr ''t2'')]])]"

definition ia_search_response :: json where
  "ia_search_response =
     JObj [(''response'', JObj [(''numFound'', JInt 2),
        (''docs'', JArr [
           JObj [(''identifier'', JStr ''notes''), (''title'', JStr ''Notes on The Kid''),
                 (''licenseurl'', JStr ''https://creativecommons.org/licenses/by/4.0/'')],
           JObj [(''identifier'', JStr ''TheKid1921''), (''title'', JStr ''The Kid''),
                 (''year'', JStr ''1921''),
                 (''licenseurl'', JStr ''https://creativecommons.org/publicdomain/mark/1.0/'')]])])]"

definition ia_meta_notes :: json where
  "ia_meta_notes =
     JObj [(''files'', JArr [JObj [(''name'', JStr ''notes.txt'')],
                             JObj [(''name'', JStr ''kid.mp4.thumbs'')],
                             JObj [(''format'', JStr ''Metadata'')]])]"

definition ia_meta_kid :: json where
  "ia_meta_kid =
     JObj [(''files'', JArr [JObj [(''name'', JStr ''TheKid.MP4'')],
                             JObj [(''name'', JStr ''TheKid_meta.xml'')],
                             JObj [(''name'', JStr ''reel1.ogv'')],
                             JObj [(''name'', JStr ''reel2.ogv'')],
                             JObj [(''name'', JStr ''reel3.webm'')],
                             JObj [(''name'', JStr ''reel4.m4v'')],
                             JObj [(''name'', JStr ''reel5.mp4'')]])]"

definition ia_http :: http where
  "ia_http url params =
     (if url = IA_SEARCH then Inr ia_search_response
      else if url = IA_META (JStr ''notes'') then Inr ia_meta_notes
      else if url = IA_META (JStr ''TheKid1921'') then Inr ia_meta_kid
      else Inl (TransportError ''404, message=Not Found''))"

definition ia_expected :: "archive_item list" where
  "ia_expected =
     [\<lparr>ia_identifier = JStr ''TheKid1921'', ia_title = JStr ''The Kid'', ia_year = JStr ''1921'',
       ia_licenseurl = JStr ''https://creativecommons.org/publicdomain/mark/1.0/'',
       ia_links = [''https://archive.org/download/TheKid1921/TheKid.MP4'',
                   ''https://archive.org/download/TheKid1921/reel1.ogv'',
                   ''https://archive.org/download/TheKid1921/reel2.ogv'',
                   ''https://archive.org/download/TheKid1921/reel3.webm'',
                   ''https://archive.org/download/TheKid1921/reel4.m4v'']\<rparr>]"

definition admin_cfg :: config where
  "admin_cfg = \<lparr>TMDB_API_KEY = ''key'', WATCH_REGION = ''IN'', ADMIN_USER_IDS = {|7|},
                APP_BRAND = ''AllMoviesPro'', APP_TAGLINE = ''Powered by Empire Movies''\<rparr>"

definition flaky_send :: sender where
  "flaky_send chat_id text = (if chat_id = 2 then Some (TransportError ''Forbidden: bot was blocked by the user'') else None)"

definition broadcast_update :: "int \<Rightarrow> update" where
  "broadcast_update uid =
     \<lparr>effective_chat = Some 100, effective_user = Some uid,
      message_text = Some ''/broadcast hello all'', callback_query = None\<rparr>"

definition broadcast_context :: bot_context where
  "broadcast_context = \<lparr>args = Some [''hello'', ''all''], bot_data = \<lparr>recent_chats = Some {|1, 2, 3|}\<rparr>\<rparr>"

definition press :: "string \<Rightarrow> update" where
  "press d = \<lparr>effective_chat = Some 42, effective_user = Some 9, message_text = None,
              callback_query = Some \<lparr>cq_data = Some d\<rparr>\<rparr>"

definition failing_handlers :: handlers where
  "failing_handlers =
     \<lparr>on_pick = (\<lambda>d. ([Answer, EditMessageText ''Invalid selection.''], None)),
      on_providers = (\<lambda>m i. ([EditMessageText ''Providers error: 503''], None)),
      on_trailer = (\<lambda>m i. ([], Some (TransportError ''404, message=Not Found''))),
      on_public_domain = (\<lambda>t. ([EditMessageText ''Searching Internet Archive (public-domain/CC) ...''],
                                Some (TypeError ''can only concatenate str''))),
      on_recommend = (\<lambda>m i. ([EditMessageText ''No similar titles found.''], None))\<rparr>"


definition willing_platform :: platform where
  "willing_platform = \<lparr>answer = None, edit_message_text = (\<lambda>t. None)\<rparr>"



definition plain_assign :: assignment where
  "plain_assign t = None"

definition frozen_message_error :: py_error where
  "frozen_message_error =
     AttributeError (''Attribute '' @ [CHR 0x60] @ ''text'' @ [CHR 0x60] @ '' of class ''
                     @ [CHR 0x60] @ ''Message'' @ [CHR 0x60] @ '' can'' @ [CHR 0x27] @ ''t be set!'')"

definition frozen_assign :: assignment where
  "frozen_assign t = Some frozen_message_error"

definition empty_context :: bot_context where
  "empty_context = \<lparr>args = None, bot_data = \<lparr>recent_chats = None\<rparr>\<rparr>"

definition text_update :: "string \<Rightarrow> update" where
  "text_update t = \<lparr>effective_chat = Some 42, effective_user = Some 9, message_text = Some t,
                    callback_query = None\<rparr>"

definition chaplin_http :: http where
  "chaplin_http url params = Inr search_response"

definition chaplin_keyboard :: "(json \<times> string) list" where
  "chaplin_keyboard =
     [(JStr ''Chaplin (1992)'', ''pick|movie|10435''), (JStr ''Chaplin Today'', ''pick|tv|4553'')]"

section \<open>Properties\<close>

subsection \<open>Splitting, joining and decimal text\<close>

lemma split_on_ne: "split_on c s \<noteq> []"
  by (induction s) auto

lemma split_on_notin: "c \<notin> set a \<Longrightarrow> split_on c a = [a]"
  by (induction a) auto

lemma split_on_append: "c \<notin> set a \<Longrightarrow> split_on c (a @ c # b) = a # split_on c b"
  by (induction a) auto

lemma split_on_elems: "x \<in> set (split_on c s) \<Longrightarrow> c \<notin> set x"
proof (induction s arbitrary: x)
  case Nil
  then show ?case by simp
next
  case (Cons a s)
  obtain w ws where sp: "split_on c s = w # ws"
    using split_on_ne [of c s] by (cases "split_on c s") auto
  from Cons sp show ?case by (auto split: if_splits)
qed

lemma of_char_digit_char: "d < 10 \<Longrightarrow> of_char (digit_char d) = 48 + d"
  by (simp add: digit_char_def)

lemma is_digit_digit_char: "d < 10 \<Longrightarrow> is_digit (digit_char d)"
  by (simp add: is_digit_def of_char_digit_char)

lemma digit_val_digit_char: "d < 10 \<Longrightarrow> digit_val (digit_char d) = d"
  by (simp add: digit_val_def of_char_digit_char)

lemma digits10_digits: "c \<in> set (digits10 n) \<Longrightarrow> is_digit c"
proof (induction n arbitrary: c rule: digits10.induct)
  case (1 n)
  show ?case
  proof (cases "n < 10")
    case True
    with 1(2) show ?thesis
      by (subst (asm) digits10.simps) (simp add: is_digit_digit_char)
  next
    case False
    with 1 show ?thesis
      by (subst (asm) (2) digits10.simps) (auto simp: is_digit_digit_char)
  qed
qed

lemma digits10_ne: "digits10 n \<noteq> []"
  by (subst digits10.simps) simp

lemma value10_snoc: "value10 (s @ [c]) = 10 * value10 s + digit_val c"
  by (simp add: value10_def)

lemma value10_digits10: "value10 (digits10 n) = n"
proof (induction n rule: digits10.induct)
  case (1 n)
  show ?case
  proof (cases "n < 10")
    case True
    then show ?thesis
      by (subst digits10.simps) (simp add: value10_def digit_val_digit_char)
  next
    case False
    with 1 show ?thesis
      by (subst digits10.simps) (simp add: value10_snoc digit_val_digit_char)
  qed
qed

lemma digits_ok_all: "s \<noteq> [] \<Longrightarrow> \<forall>c\<in>set s. is_digit c \<Longrightarrow> digits_ok s"
proof (induction s rule: digits_ok.induct)
  case (3 c d s)
  then show ?case by (auto simp: is_digit_def)
qed simp_all

lemma is_digit_not_space: "is_digit c \<Longrightarrow> \<not> is_int_space c"
  by (auto simp: is_digit_def is_int_space_def Let_def)

lemma dropWhile_hd: "s \<noteq> [] \<Longrightarrow> \<not> P (hd s) \<Longrightarrow> dropWhile P s = s"
  by (cases s) auto

lemma int_strip_id:
  "s \<noteq> [] \<Longrightarrow> \<not> is_int_space (hd s) \<Longrightarrow> \<not> is_int_space (last s) \<Longrightarrow> int_strip s = s"
  by (simp add: int_strip_def dropWhile_hd hd_rev)

lemma digits10_hd_last: "is_digit (hd (digits10 n))" "is_digit (last (digits10 n))"
  using digits10_digits digits10_ne by (meson hd_in_set last_in_set)+

lemma not_digit: "\<not> is_digit CHR ''-''" "\<not> is_digit CHR ''+''" "\<not> is_digit CHR ''_''"
  "\<not> is_digit CHR ''|''"
  by (simp_all add: is_digit_def)

lemma minus_not_in_digits: "CHR ''-'' \<notin> set (digits10 n)" "CHR ''+'' \<notin> set (digits10 n)"
  "CHR ''_'' \<notin> set (digits10 n)" "CHR ''|'' \<notin> set (digits10 n)"
  using digits10_digits [of _ n] not_digit by blast+

lemma filter_digits10: "filter (\<lambda>c. c \<noteq> CHR ''_'') (digits10 n) = digits10 n"
  using minus_not_in_digits(3) [of n] by (auto simp: filter_id_conv)

lemma py_int_py_str: "py_int (py_str n) = Inr n"
proof (cases "n < 0")
  case True
  have s: "int_strip (CHR ''-'' # digits10 (nat (- n))) = CHR ''-'' # digits10 (nat (- n))"
    using digits10_hd_last(2) [of "nat (- n)"] digits10_ne [of "nat (- n)"]
    by (intro int_strip_id) (auto simp: is_int_space_def dest: is_digit_not_space)
  show ?thesis using True
    by (simp add: py_int_def py_str_def s Let_def digits_ok_all digits10_ne digits10_digits
        filter_digits10 value10_digits10)
next
  case False
  let ?d = "digits10 (nat n)"
  have s: "int_strip ?d = ?d"
    using digits10_hd_last [of "nat n"] digits10_ne [of "nat n"]
    by (intro int_strip_id) (auto dest: is_digit_not_space)
  have h: "hd ?d \<noteq> CHR ''-''" "hd ?d \<noteq> CHR ''+''"
    using digits10_hd_last(1) [of "nat n"] not_digit by auto
  show ?thesis using False h
    by (simp add: py_int_def py_str_def s Let_def digits_ok_all digits10_ne digits10_digits
        filter_digits10 value10_digits10)
qed

text \<open>A separator that \<^verbatim>\<open>str.strip()\<close> removes is no white space to \<^verbatim>\<open>int()\<close>.\<close>

lemma py_int_refuses_separator: "isl (py_int (''7'' @ [CHR 0x1F]))"
  by code_simp

lemma bar_not_in_py_str: "CHR ''|'' \<notin> set (py_str n)"
  using minus_not_in_digits(4) by (simp add: py_str_def)

lemma digit_chars:
  "digit_char 0 = CHR ''0''" "digit_char 1 = CHR ''1''" "digit_char 2 = CHR ''2''"
  "digit_char 3 = CHR ''3''" "digit_char 4 = CHR ''4''" "digit_char 5 = CHR ''5''"
  "digit_char 6 = CHR ''6''" "digit_char 7 = CHR ''7''" "digit_char 8 = CHR ''8''"
  "digit_char 9 = CHR ''9''" "digit_char (Suc 0) = CHR ''1''"
  by code_simp+

lemma strip_empty: "strip [] = []"
  by (simp add: strip_def)

subsection \<open>Callback data round trip\<close>

lemma unpack3_kind_no_bar:
  "unpack3 (split_on CHR ''|'' d) = Inr (m, i) \<Longrightarrow> CHR ''|'' \<notin> set m"
  using split_on_elems [of m "CHR ''|''" d]
  by (auto simp: unpack3_def ebind_def split: list.splits sum.splits)

lemma decode_pd:
  assumes "CHR ''|'' \<notin> set m"
  shows "decode (pd_data m i t) = Inr (PublicDomain (replace_char CHR ''|'' CHR '' '' t))"
proof -
  let ?t = "replace_char CHR ''|'' CHR '' '' t"
  have t: "CHR ''|'' \<notin> set ?t"
    by (auto simp: replace_char_def)
  have "split_on CHR ''|'' (pd_data m i t) = [''pd'', m, py_str i, ?t]"
    using assms t bar_not_in_py_str [of i]
    by (simp add: pd_data_def split_on_append split_on_notin)
  then show ?thesis
    by (simp add: decode_def)
qed

lemma unpack3_enc:
  assumes "CHR ''|'' \<notin> set m" "CHR ''|'' \<notin> set tag"
  shows "unpack3 (split_on CHR ''|'' (tag @ ''|'' @ m @ ''|'' @ py_str i)) = Inr (m, i)"
  using assms bar_not_in_py_str [of i]
  by (simp add: split_on_append split_on_notin unpack3_def ebind_def py_int_py_str)

lemma hd_split_enc:
  assumes "CHR ''|'' \<notin> set tag"
  shows "hd (split_on CHR ''|'' (tag @ ''|'' @ rest)) = tag"
  using assms by (simp add: split_on_append)

lemma decode_prov:
  assumes "CHR ''|'' \<notin> set m"
  shows "decode (prov_data m i) = Inr (Providers m i)"
  using unpack3_enc [OF assms, of "''prov''" i] hd_split_enc [of "''prov''" "m @ ''|'' @ py_str i"]
  by (simp add: decode_def prov_data_def ebind_def)

lemma decode_trailer:
  assumes "CHR ''|'' \<notin> set m"
  shows "decode (trailer_data m i) = Inr (Trailer m i)"
  using unpack3_enc [OF assms, of "''trailer''" i] hd_split_enc [of "''trailer''" "m @ ''|'' @ py_str i"]
  by (simp add: decode_def trailer_data_def ebind_def)

lemma decode_rec:
  assumes "CHR ''|'' \<notin> set m"
  shows "decode (rec_data m i) = Inr (Recommend m i)"
  using unpack3_enc [OF assms, of "''rec''" i] hd_split_enc [of "''rec''" "m @ ''|'' @ py_str i"]
  by (simp add: decode_def rec_data_def ebind_def)

text \<open>The four buttons \<^verbatim>\<open>on_pick\<close> attaches decode to the four actions they stand for.\<close>

lemma pick_buttons_decode:
  assumes "CHR ''|'' \<notin> set m"
  shows "map (\<lambda>b. decode (snd b)) (pick_buttons m i t)
           = [Inr (Providers m i), Inr (Trailer m i),
              Inr (PublicDomain (replace_char CHR ''|'' CHR '' '' t)), Inr (Recommend m i)]"
  using assms by (simp add: pick_buttons_def decode_pd decode_prov decode_trailer decode_rec)

text \<open>
  Claim C2. Encoding then decoding a callback action gives back what was encoded: for
  the public-domain action the title with every delimiter replaced by a space (the
  router joins again all parts after the first three), and for the provider, trailer
  and recommendation actions the media kind and the numeric id. The media kind is any
  text without the delimiter, as every kind \<^verbatim>\<open>on_pick\<close> can decode is
  (\<open>unpack3_kind_no_bar\<close>).
\<close>

theorem callback_action_roundtrip:
  assumes "CHR ''|'' \<notin> set media_type"
  shows "decode (pd_data media_type tmdb_id title)
           = Inr (PublicDomain (replace_char CHR ''|'' CHR '' '' title))
       \<and> decode (prov_data media_type tmdb_id) = Inr (Providers media_type tmdb_id)
       \<and> decode (trailer_data media_type tmdb_id) = Inr (Trailer media_type tmdb_id)
       \<and> decode (rec_data media_type tmdb_id) = Inr (Recommend media_type tmdb_id)"
  using assms by (simp add: decode_pd decode_prov decode_trailer decode_rec)

theorem callback_action_roundtrip_witness:
  "CHR ''|'' \<notin> set ''movie''
   \<and> decode (pd_data ''movie'' 603 ''Tom|Jerry'') = Inr (PublicDomain ''Tom Jerry'')
   \<and> decode (prov_data ''movie'' 603) = Inr (Providers ''movie'' 603)
   \<and> decode (trailer_data ''movie'' 603) = Inr (Trailer ''movie'' 603)
   \<and> decode (rec_data ''movie'' 603) = Inr (Recommend ''movie'' 603)"
  using callback_action_roundtrip [of "''movie''" 603 "''Tom|Jerry''"]
  by (simp add: replace_char_def)

subsection \<open>The search adapter\<close>

lemma ebind_Inr: "ebind r f = Inr y \<Longrightarrow> \<exists>x. r = Inr x \<and> f x = Inr y"
  by (cases r) (auto simp: ebind_def)

lemma slice_iter_length:
  "py_slice_to n v = Inr first \<Longrightarrow> py_iter first = Inr items \<Longrightarrow> length items \<le> n"
  by (cases v) auto

lemma py_get_object: "is_object v \<Longrightarrow> py_get v k JNull = Inr (field v k)"
  by (cases v) (auto simp: field_def is_object_def)

lemma get_or_object: "is_object v \<Longrightarrow> get_or v a b = Inr (py_or (field v a) (field v b))"
  by (simp add: get_or_def py_get_object ebind_def py_or_def)

lemma year_of_plain: "plain_item item \<Longrightarrow> year_of item = Inr (year_text item)"
  by (auto simp: plain_item_def year_of_def get_or_object ebind_def year_text_def py_or_def
      text_or_absent_def split: json.splits)

lemma search_item_kind:
  "search_item item = Inr (Some r) \<Longrightarrow> r_media_type r = JStr ''movie'' \<or> r_media_type r = JStr ''tv''"
  by (auto simp: search_item_def split: if_splits dest!: ebind_Inr)

lemma search_loop_props:
  "search_loop items = Inr out \<Longrightarrow>
     length out \<le> length items
     \<and> (\<forall>r\<in>set out. r_media_type r = JStr ''movie'' \<or> r_media_type r = JStr ''tv'')"
proof (induction items arbitrary: out)
  case Nil
  then show ?case by simp
next
  case (Cons item rest)
  then show ?case
    by (fastforce split: sum.splits option.splits dest: search_item_kind)
qed

lemma search_item_plain:
  "plain_item item \<Longrightarrow>
     search_item item
       = Inr (if movie_or_tv item then Some (reduced (field item ''media_type'') item) else None)"
  by (auto simp: search_item_def plain_item_def py_get_object get_or_object year_of_plain
      ebind_def movie_or_tv_def reduced_def)

lemma search_loop_plain:
  "\<forall>item\<in>set items. plain_item item \<Longrightarrow>
     search_loop items
       = Inr (map (\<lambda>item. reduced (field item ''media_type'') item) (filter movie_or_tv items))"
  by (induction items) (simp_all add: search_item_plain)

lemma tmdb_search_returns:
  assumes "http (TMDB_BASE @ ''/search/multi'')
             [(''api_key'', api_key), (''query'', query), (''include_adult'', ''false''),
              (''language'', ''en-US''), (''page'', ''1'')] = Inr (JObj kvs)"
    and "map_of kvs ''results'' = Some (JArr items)"
    and "\<forall>item\<in>set (take 10 items). plain_item item"
  shows "tmdb_search http api_key query
           = Inr (map (\<lambda>item. reduced (field item ''media_type'') item)
                    (filter movie_or_tv (take 10 items)))"
  using assms by (simp add: tmdb_search_def ebind_def search_loop_plain)

text \<open>
  Claim C5. Whatever the response, what the search adapter returns has at most 10 items
  and the media kind of each is \<^verbatim>\<open>movie\<close> or \<^verbatim>\<open>tv\<close>. And it does return for a response
  whose \<^verbatim>\<open>results\<close> is a list of objects with text dates: the result is then the first 10
  entries of the response, without those of any other kind, each reduced to its id, media
  kind, title, year and poster.
\<close>

theorem tmdb_search_movie_or_tv:
  "(\<forall>out. tmdb_search http api_key query = Inr out \<longrightarrow>
      length out \<le> 10
      \<and> (\<forall>r\<in>set out. r_media_type r = JStr ''movie'' \<or> r_media_type r = JStr ''tv''))
   \<and> (\<forall>kvs items.
        http (TMDB_BASE @ ''/search/multi'') (search_params api_key query) = Inr (JObj kvs)
        \<and> map_of kvs ''results'' = Some (JArr items)
        \<and> (\<forall>item\<in>set (take 10 items). plain_item item) \<longrightarrow>
        tmdb_search http api_key query
          = Inr (map (\<lambda>item. reduced (field item ''media_type'') item)
                   (filter movie_or_tv (take 10 items))))"
proof -
  have A: "length out \<le> 10
      \<and> (\<forall>r\<in>set out. r_media_type r = JStr ''movie'' \<or> r_media_type r = JStr ''tv'')"
    if "tmdb_search http api_key query = Inr out" for out
  proof -
    from that obtain res page items where
      "py_slice_to 10 res = Inr page" "py_iter page = Inr items" "search_loop items = Inr out"
      unfolding tmdb_search_def by (blast dest!: ebind_Inr)
    then show ?thesis
      using slice_iter_length [of 10 res page items] search_loop_props [of items out] by force
  qed
  have B: "tmdb_search http api_key query
          = Inr (map (\<lambda>item. reduced (field item ''media_type'') item)
                   (filter movie_or_tv (take 10 items)))"
    if "http (TMDB_BASE @ ''/search/multi'') (search_params api_key query) = Inr (JObj kvs)
        \<and> map_of kvs ''results'' = Some (JArr items)
        \<and> (\<forall>item\<in>set (take 10 items). plain_item item)" for kvs items
    using that tmdb_search_returns [of http api_key query kvs items]
    by (simp add: search_params_def)
  show ?thesis
  proof (rule conjI)
    show "\<forall>out. tmdb_search http api_key query = Inr out \<longrightarrow>
      length out \<le> 10
      \<and> (\<forall>r\<in>set out. r_media_type r = JStr ''movie'' \<or> r_media_type r = JStr ''tv'')"
      using A by blast
    show "\<forall>kvs items.
        http (TMDB_BASE @ ''/search/multi'') (search_params api_key query) = Inr (JObj kvs)
        \<and> map_of kvs ''results'' = Some (JArr items)
        \<and> (\<forall>item\<in>set (take 10 items). plain_item item) \<longrightarrow>
        tmdb_search http api_key query
          = Inr (map (\<lambda>item. reduced (field item ''media_type'') item)
                   (filter movie_or_tv (take 10 items)))"
      using B by blast
  qed
qed

lemma tmdb_search_example:
  "tmdb_search (\<lambda>url params. Inr search_response) ''key'' ''Chaplin'' = Inr search_expected"
  by (simp add: tmdb_search_def search_response_def search_expected_def ebind_def
      search_item_def get_or_def year_of_def py_or_def)

theorem tmdb_search_movie_or_tv_witness:
  "tmdb_search (\<lambda>url params. Inr search_response) ''key'' ''Chaplin'' = Inr search_expected
   \<and> length search_expected \<le> 10
   \<and> map r_media_type search_expected = [JStr ''movie'', JStr ''tv'']"
proof -
  let ?http = "\<lambda>(url::string) (params::(string \<times> string) list). Inr search_response :: py_error + json"
  let ?items = "[JObj [(''id'', JInt 10435), (''media_type'', JStr ''movie''),
                    (''title'', JStr ''Chaplin''), (''release_date'', JStr ''1992-12-17''),
                    (''poster_path'', JStr ''/chaplin.jpg'')],
              JObj [(''id'', JInt 13848), (''media_type'', JStr ''person''),
                    (''name'', JStr ''Charlie Chaplin'')],
              JObj [(''id'', JInt 4553), (''media_type'', JStr ''tv''),
                    (''name'', JStr ''Chaplin Today'')]]"
  let ?kvs = "[(''page'', JInt 1), (''results'', JArr ?items)]"
  have a: "?http (TMDB_BASE @ ''/search/multi'') (search_params ''key'' ''Chaplin'') = Inr (JObj ?kvs)
           \<and> map_of ?kvs ''results'' = Some (JArr ?items)
           \<and> (\<forall>item\<in>set (take 10 ?items). plain_item item)"
    by (simp add: search_response_def plain_item_def is_object_def field_def text_or_absent_def)
  have e: "map (\<lambda>item. reduced (field item ''media_type'') item) (filter movie_or_tv (take 10 ?items))
             = search_expected"
    by (simp add: search_expected_def movie_or_tv_def field_def reduced_def year_text_def py_or_def)
  note t = tmdb_search_movie_or_tv [of ?http "''key''" "''Chaplin''"]
  have r: "tmdb_search ?http ''key'' ''Chaplin'' = Inr search_expected"
    using t [THEN conjunct2, THEN spec, THEN spec, THEN mp, OF a] e by simp
  show ?thesis
    using r t [THEN conjunct1, THEN spec, THEN mp, OF r] by (simp add: search_expected_def)
qed

subsection \<open>The similar-titles adapter\<close>

lemma similar_item_kind: "similar_item k item = Inr r \<Longrightarrow> r_media_type r = JStr k"
  by (auto simp: similar_item_def dest!: ebind_Inr)

lemma similar_loop_props:
  "similar_loop k items = Inr out \<Longrightarrow>
     length out = length items \<and> (\<forall>r\<in>set out. r_media_type r = JStr k)"
proof (induction items arbitrary: out)
  case Nil
  then show ?case by simp
next
  case (Cons item rest)
  then show ?case
    by (auto split: sum.splits dest: similar_item_kind)
qed

lemma similar_item_plain:
  "plain_item item \<Longrightarrow> similar_item k item = Inr (reduced (JStr k) item)"
  by (simp add: similar_item_def plain_item_def py_get_object get_or_object year_of_plain
      ebind_def reduced_def)

lemma similar_loop_plain:
  "\<forall>item\<in>set items. plain_item item \<Longrightarrow>
     similar_loop k items = Inr (map (reduced (JStr k)) items)"
  by (induction items) (simp_all add: similar_item_plain)

lemma tmdb_similar_returns:
  assumes "http (TMDB_BASE @ ''/'' @ k @ ''/'' @ py_str tmdb_id @ ''/similar'')
             [(''api_key'', api_key), (''language'', ''en-US''), (''page'', ''1'')] = Inr (JObj kvs)"
    and "map_of kvs ''results'' = Some (JArr items)"
    and "\<forall>item\<in>set (take 10 items). plain_item item"
  shows "tmdb_similar http api_key k tmdb_id = Inr (map (reduced (JStr k)) (take 10 items))"
  using assms by (simp add: tmdb_similar_def ebind_def similar_loop_plain)

text \<open>
  Claim C10. Whatever the response, what the similar-titles adapter called with media
  kind \<open>k\<close> returns has at most 10 items and the \<^verbatim>\<open>media_type\<close> of each is \<open>k\<close>. And it does
  return for a response whose \<^verbatim>\<open>results\<close> is a list of objects with text dates: the result
  is then the first 10 entries, each reduced with \<open>k\<close> as its kind, whatever \<^verbatim>\<open>media_type\<close>
  the entry carries (the search adapter, above, reads the entry's own).
\<close>

theorem tmdb_similar_stamps_kind:
  "(\<forall>out. tmdb_similar http api_key k tmdb_id = Inr out \<longrightarrow>
      length out \<le> 10 \<and> (\<forall>r\<in>set out. r_media_type r = JStr k))
   \<and> (\<forall>kvs items.
        http (similar_endpoint k tmdb_id) (similar_params api_key) = Inr (JObj kvs)
        \<and> map_of kvs ''results'' = Some (JArr items)
        \<and> (\<forall>item\<in>set (take 10 items). plain_item item) \<longrightarrow>
        tmdb_similar http api_key k tmdb_id = Inr (map (reduced (JStr k)) (take 10 items)))"
proof -
  have A: "length out \<le> 10 \<and> (\<forall>r\<in>set out. r_media_type r = JStr k)"
    if "tmdb_similar http api_key k tmdb_id = Inr out" for out
  proof -
    from that obtain res page items where
      "py_slice_to 10 res = Inr page" "py_iter page = Inr items" "similar_loop k items = Inr out"
      unfolding tmdb_similar_def by (blast dest!: ebind_Inr)
    then show ?thesis
      using slice_iter_length [of 10 res page items] similar_loop_props [of k items out] by simp
  qed
  have B: "tmdb_similar http api_key k tmdb_id = Inr (map (reduced (JStr k)) (take 10 items))"
    if "http (similar_endpoint k tmdb_id) (similar_params api_key) = Inr (JObj kvs)
        \<and> map_of kvs ''results'' = Some (JArr items)
        \<and> (\<forall>item\<in>set (take 10 items). plain_item item)" for kvs items
    using that tmdb_similar_returns [of http k tmdb_id api_key kvs items]
    by (simp add: similar_endpoint_def similar_params_def)
  show ?thesis
  proof (rule conjI)
    show "\<forall>out. tmdb_similar http api_key k tmdb_id = Inr out \<longrightarrow>
      length out \<le> 10 \<and> (\<forall>r\<in>set out. r_media_type r = JStr k)"
      using A by blast
    show "\<forall>kvs items.
        http (similar_endpoint k tmdb_id) (similar_params api_key) = Inr (JObj kvs)
        \<and> map_of kvs ''results'' = Some (JArr items)
        \<and> (\<forall>item\<in>set (take 10 items). plain_item item) \<longrightarrow>
        tmdb_similar http api_key k tmdb_id = Inr (map (reduced (JStr k)) (take 10 items))"
      using B by blast
  qed
qed

theorem tmdb_similar_stamps_kind_witness:
  "tmdb_similar (\<lambda>url params. Inr similar_response) ''key'' ''tv'' 1399 = Inr similar_expected
   \<and> length similar_expected \<le> 10
   \<and> map r_media_type similar_expected = [JStr ''tv'', JStr ''tv'']"
proof -
  let ?http = "\<lambda>(url::string) (params::(string \<times> string) list). Inr similar_response :: py_error + json"
  let ?items = "[JObj [(''id'', JInt 1396), (''name'', JStr ''Breaking Bad''),
                    (''media_type'', JStr ''movie''), (''first_air_date'', JStr ''2008-01-20'')],
              JObj [(''id'', JInt 60059), (''title'', JStr []), (''name'', JStr ''Better Call Saul'')]]"
  let ?kvs = "[(''page'', JInt 1), (''results'', JArr ?items)]"
  have a: "?http (similar_endpoint ''tv'' 1399) (similar_params ''key'') = Inr (JObj ?kvs)
           \<and> map_of ?kvs ''results'' = Some (JArr ?items)
           \<and> (\<forall>item\<in>set (take 10 ?items). plain_item item)"
    by (simp add: similar_response_def plain_item_def is_object_def field_def text_or_absent_def)
  have e: "map (reduced (JStr ''tv'')) (take 10 ?items) = similar_expected"
    by (simp add: similar_expected_def field_def reduced_def year_text_def py_or_def)
  note t = tmdb_similar_stamps_kind [of ?http "''key''" "''tv''" 1399]
  have r: "tmdb_similar ?http ''key'' ''tv'' 1399 = Inr similar_expected"
    using t [THEN conjunct2, THEN spec, THEN spec, THEN mp, OF a] e by simp
  show ?thesis
    using r t [THEN conjunct1, THEN spec, THEN mp, OF r] by (simp add: similar_expected_def)
qed

subsection \<open>The trailer adapter\<close>

lemma is_trailer_object: "is_object v \<Longrightarrow> is_trailer v = Inr (is_youtube_trailer v)"
  by (cases v) (auto simp: is_trailer_def is_youtube_trailer_def field_def ebind_def is_object_def)

lemma videos_loop_first:
  "\<forall>v\<in>set vs. is_object v \<Longrightarrow> videos_loop vs = Inr (first_trailer_url vs)"
  by (induction vs) (auto simp: first_trailer_url_def is_trailer_object py_get_object ebind_def)

text \<open>
  Claim C8. For a video-list response (an object whose \<^verbatim>\<open>results\<close> is a list of
  objects) the trailer adapter returns the watch URL built from the key of the first
  entry, in the order of the response, whose site is YouTube and whose type is Trailer or
  Teaser, and \<open>None\<close> when there is no such entry. No other preference is applied.
\<close>

theorem tmdb_videos_first_match:
  assumes "http (videos_endpoint media_type tmdb_id) [(''api_key'', api_key)] = Inr (JObj kvs)"
    and "map_of kvs ''results'' = Some (JArr vs)"
    and "\<forall>v\<in>set vs. is_object v"
  shows "tmdb_videos http api_key media_type tmdb_id = Inr (first_trailer_url vs)"
  using assms
  by (simp add: tmdb_videos_def videos_endpoint_def ebind_def videos_loop_first)

theorem tmdb_videos_first_match_witness:
  "tmdb_videos (\<lambda>url params. Inr (JObj videos_response)) ''key'' ''movie'' 603
     = Inr (Some ''https://www.youtube.com/watch?v=t1'')"
proof -
  let ?vs = "[JObj [(''site'', JStr ''Vimeo''), (''type'', JStr ''Trailer''), (''key'', JStr ''v1'')],
         JObj [(''site'', JStr ''YouTube''), (''type'', JStr ''Featurette''), (''key'', JStr ''f1'')],
         JObj [(''site'', JStr ''YouTube''), (''type'', JStr ''Teaser''), (''key'', JStr ''t1'')],
         JObj [(''site'', JStr ''YouTube''), (''type'', JStr ''Trailer''), (''key'', JStr ''t2'')]]"
  have a: "(\<lambda>url params. Inr (JObj videos_response)) (videos_endpoint ''movie'' 603)
             [(''api_key'', ''key'')] = Inr (JObj videos_response)"
    by simp
  have b: "map_of videos_response ''results'' = Some (JArr ?vs)"
    by (simp add: videos_response_def)
  have c: "\<forall>v\<in>set ?vs. is_object v"
    by (simp add: is_object_def)
  have d: "first_trailer_url ?vs = Some ''https://www.youtube.com/watch?v=t1''"
    by (simp add: first_trailer_url_def is_youtube_trailer_def field_def watch_url_def)
  show ?thesis
    using tmdb_videos_first_match [OF a b c] d by simp
qed

subsection \<open>The public-domain adapter\<close>

lemma files_loop_links:
  "files_loop ident fs = Inr links \<Longrightarrow>
     \<forall>l\<in>set links. \<exists>name. l = download_link ident name \<and> keep_file name"
proof (induction fs arbitrary: links)
  case Nil
  then show ?case by simp
next
  case (Cons f fs)
  then show ?case
    by (auto split: sum.splits json.splits if_splits)
qed

lemma ia_doc_ok: "ia_doc http d = Inr (Some it) \<Longrightarrow> item_ok it"
proof -
  assume a: "ia_doc http d = Inr (Some it)"
  then obtain ident files file_links where
    fl: "files_loop ident files = Inr file_links" and
    rest: "(if file_links \<noteq> [] then
         ebind (py_get d ''title'' JNull) (\<lambda>title.
         ebind (py_get d ''year'' JNull) (\<lambda>year.
         ebind (py_get d ''licenseurl'' JNull) (\<lambda>lic.
           Inr (Some \<lparr>ia_identifier = ident, ia_title = title, ia_year = year,
                      ia_licenseurl = lic, ia_links = take 5 file_links\<rparr>))))
       else Inr None) = Inr (Some it)"
    unfolding ia_doc_def by (blast dest!: ebind_Inr)
  from rest have ne: "file_links \<noteq> []"
    by (auto split: if_splits)
  with rest obtain title year lic where
    it: "it = \<lparr>ia_identifier = ident, ia_title = title, ia_year = year,
                ia_licenseurl = lic, ia_links = take 5 file_links\<rparr>"
    by (auto dest!: ebind_Inr)
  have "\<forall>l\<in>set (take 5 file_links). \<exists>name. l = download_link ident name \<and> keep_file name"
    using files_loop_links [OF fl] by (meson in_set_takeD)
  with ne it show ?thesis
    by (auto simp: item_ok_def keep_file_def)
qed

lemma ia_loop_ok: "ia_loop http ds = Inr its \<Longrightarrow> \<forall>it\<in>set its. item_ok it"
proof (induction ds arbitrary: its)
  case Nil
  then show ?case by simp
next
  case (Cons d ds)
  then show ?case
    by (auto split: sum.splits option.splits dest: ia_doc_ok)
qed

lemma files_loop_returns: "list_all named_file fs \<Longrightarrow> \<exists>links. files_loop ident fs = Inr links"
proof (induction fs)
  case Nil
  then show ?case by simp
next
  case (Cons f fs)
  then obtain links where l: "files_loop ident fs = Inr links"
    by auto
  from Cons.prems have "named_file f"
    by simp
  then show ?case
    using l by (auto simp: named_file_def split: json.splits option.splits)
qed

lemma ia_doc_returns:
  assumes "doc_ok http d"
  shows "\<exists>r. ia_doc http d = Inr r"
proof -
  from assms obtain dk where d: "d = JObj dk"
    by (cases d) (auto simp: doc_ok_def is_object_def)
  let ?ident = "field d ''identifier''"
  from assms obtain kvs where m: "http (IA_META ?ident) [] = Inr (JObj kvs)"
    by (auto simp: doc_ok_def split: sum.splits json.splits)
  define fs where "fs = (case map_of kvs ''files'' of Some (JArr xs) \<Rightarrow> xs | _ \<Rightarrow> [])"
  have f: "ebind (py_get (JObj kvs) ''files'' (JArr [])) py_iter = Inr fs" and n: "list_all named_file fs"
    using assms m by (auto simp: doc_ok_def fs_def ebind_def split: option.splits json.splits)
  obtain links where l: "files_loop ?ident fs = Inr links"
    using files_loop_returns [OF n] by blast
  have g: "py_get d k JNull = Inr (field d k)" for k
    by (simp add: d field_def)
  from f have f': "py_iter (case map_of kvs ''files'' of None \<Rightarrow> JArr [] | Some v \<Rightarrow> v) = Inr fs"
    by (simp add: ebind_def)
  show ?thesis
    unfolding ia_doc_def
    by (simp add: g m ebind_def f' l)
qed

lemma ia_loop_returns: "\<forall>d\<in>set ds. doc_ok http d \<Longrightarrow> \<exists>its. ia_loop http ds = Inr its"
proof (induction ds)
  case Nil
  then show ?case by simp
next
  case (Cons d ds)
  then obtain its r where "ia_loop http ds = Inr its" "ia_doc http d = Inr r"
    using ia_doc_returns [of http d] by auto
  then show ?case
    by (cases r) auto
qed

lemma ia_search_returns:
  assumes "http IA_SEARCH (ia_params title limit) = Inr (JObj kvs)"
    and "map_of kvs ''response'' = Some (JObj rkvs)"
    and "map_of rkvs ''docs'' = Some (JArr docs)"
    and "\<forall>d\<in>set docs. doc_ok http d"
  shows "\<exists>items. ia_search_public_domain http title limit = Inr items"
  using assms ia_loop_returns [of docs http]
  by (simp add: ia_search_public_domain_def ia_params_def ebind_def)

text \<open>
  Claim C4. Whatever the title and whatever the archive answers (the search response
  and the metadata response of each identifier), every item the public-domain adapter
  returns has at least one link and at most 5, and every link is the download address of
  a file whose extension is in the video-file set \<open>VIDEO_EXTS\<close>; an item with no surviving
  link is not in the result. The extension is what the adapter computes and tests: the
  text after the last dot of the file name, in lower case. And the adapter does return
  when the search response lists objects and every metadata response lists files that
  are objects with a text name.
\<close>

theorem ia_search_links_are_videos:
  "(\<forall>items. ia_search_public_domain http title limit = Inr items \<longrightarrow>
      (\<forall>it\<in>set items.
         ia_links it \<noteq> [] \<and> length (ia_links it) \<le> 5
         \<and> (\<forall>l\<in>set (ia_links it).
               \<exists>name. l = download_link (ia_identifier it) name \<and> file_ext name \<in> VIDEO_EXTS)))
   \<and> (\<forall>kvs rkvs docs.
        http IA_SEARCH (ia_params title limit) = Inr (JObj kvs)
        \<and> map_of kvs ''response'' = Some (JObj rkvs)
        \<and> map_of rkvs ''docs'' = Some (JArr docs)
        \<and> (\<forall>d\<in>set docs. doc_ok http d) \<longrightarrow>
        (\<exists>items. ia_search_public_domain http title limit = Inr items))"
proof -
  have A: "\<forall>it\<in>set items. item_ok it"
    if "ia_search_public_domain http title limit = Inr items" for items
  proof -
    from that obtain docs where "ia_loop http docs = Inr items"
      unfolding ia_search_public_domain_def by (blast dest!: ebind_Inr)
    then show ?thesis
      by (rule ia_loop_ok)
  qed
  show ?thesis
  proof (rule conjI)
    show "\<forall>items. ia_search_public_domain http title limit = Inr items \<longrightarrow>
      (\<forall>it\<in>set items.
         ia_links it \<noteq> [] \<and> length (ia_links it) \<le> 5
         \<and> (\<forall>l\<in>set (ia_links it).
               \<exists>name. l = download_link (ia_identifier it) name \<and> file_ext name \<in> VIDEO_EXTS))"
      using A unfolding item_ok_def by blast
    show "\<forall>kvs rkvs docs.
        http IA_SEARCH (ia_params title limit) = Inr (JObj kvs)
        \<and> map_of kvs ''response'' = Some (JObj rkvs)
        \<and> map_of rkvs ''docs'' = Some (JArr docs)
        \<and> (\<forall>d\<in>set docs. doc_ok http d) \<longrightarrow>
        (\<exists>items. ia_search_public_domain http title limit = Inr items)"
      using ia_search_returns [of http title limit] by blast
  qed
qed

lemma ia_search_example: "ia_search_public_domain ia_http ''The Kid'' 5 = Inr ia_expected"
  by code_simp

theorem ia_search_links_are_videos_witness:
  "ia_search_public_domain ia_http ''The Kid'' 5 = Inr ia_expected
   \<and> map (\<lambda>it. length (ia_links it)) ia_expected = [5]"
proof -
  let ?docs = "[JObj [(''identifier'', JStr ''notes''), (''title'', JStr ''Notes on The Kid''),
                 (''licenseurl'', JStr ''https://creativecommons.org/licenses/by/4.0/'')],
           JObj [(''identifier'', JStr ''TheKid1921''), (''title'', JStr ''The Kid''),
                 (''year'', JStr ''1921''),
                 (''licenseurl'', JStr ''https://creativecommons.org/publicdomain/mark/1.0/'')]]"
  let ?rkvs = "[(''numFound'', JInt 2), (''docs'', JArr ?docs)]"
  let ?kvs = "[(''response'', JObj ?rkvs)]"
  have u: "IA_META (JStr ''notes'') \<noteq> IA_SEARCH" "IA_META (JStr ''TheKid1921'') \<noteq> IA_SEARCH"
    "IA_META (JStr ''TheKid1921'') \<noteq> IA_META (JStr ''notes'')"
    by (simp_all add: IA_META_def IA_SEARCH_def)
  have a: "ia_http IA_SEARCH (ia_params ''The Kid'' 5) = Inr (JObj ?kvs)
           \<and> map_of ?kvs ''response'' = Some (JObj ?rkvs)
           \<and> map_of ?rkvs ''docs'' = Some (JArr ?docs)
           \<and> (\<forall>d\<in>set ?docs. doc_ok ia_http d)"
    by (simp add: ia_http_def ia_search_response_def doc_ok_def is_object_def field_def u
        ia_meta_notes_def ia_meta_kid_def named_file_def)
  note t = ia_search_links_are_videos [of ia_http "''The Kid''" 5]
  from t [THEN conjunct2, THEN spec, THEN spec, THEN spec, THEN mp, OF a]
  have "\<exists>items. ia_search_public_domain ia_http ''The Kid'' 5 = Inr items" .
  then show ?thesis
    using ia_search_example t [THEN conjunct1, THEN spec, THEN mp, OF ia_search_example]
    by (simp add: ia_expected_def)
qed

subsection \<open>Broadcast\<close>

lemma broadcast_loop_eq:
  "broadcast_loop send msg cs
     = (length (delivered send msg cs), map (\<lambda>c. SendMessage c msg) (delivered send msg cs))"
  by (induction cs) (auto simp: delivered_def split: option.splits)

lemma delivered_count:
  assumes "distinct cs" and "fset_of_list cs = chats"
  shows "length (delivered send msg cs) = fcard chats - fcard (failing send msg chats)"
proof -
  have s: "fset chats = set cs"
    using assms(2) by (auto simp: fset_of_list.rep_eq)
  let ?ok = "{c \<in> set cs. send c msg = None}"
  let ?bad = "{c \<in> set cs. send c msg \<noteq> None}"
  have 1: "length (delivered send msg cs) = card ?ok"
    using assms(1) by (simp add: delivered_def distinct_length_filter Int_def conj_commute)
  have 2: "fcard chats = card (set cs)"
    by (simp add: fcard.rep_eq s)
  have 3: "fcard (failing send msg chats) = card ?bad"
    by (simp add: failing_def fcard.rep_eq s Int_def conj_commute)
  have "?ok \<union> ?bad = set cs" "?ok \<inter> ?bad = {}"
    by auto
  then have "card (set cs) = card ?ok + card ?bad"
    by (metis (no_types, lifting) List.finite_set card_Un_disjoint finite_Un)
  with 1 2 3 show ?thesis by simp
qed

text \<open>
  Claim C6. An authorized user broadcasts a text that is not empty to the \<open>N\<close> chats of
  the known-chat set, and sending raises for some of them. The handler sends to every
  other chat, reports \<open>N\<close> minus the number of failing chats as the count, and returns
  without an exception. The order in which the set is listed is any list of its elements
  without repetition.
\<close>

theorem broadcast_counts_successes:
  assumes "effective_user upd = Some uid" and "is_admin cfg uid"
    and "args ctx = Some ws" and "strip (join '' '' ws) = msg" and "msg \<noteq> []"
    and "known_chats (bot_data ctx) = chats"
    and "distinct (order chats)" and "fset_of_list (order chats) = chats"
  shows "cmd_broadcast cfg send order upd ctx
           = (bot_data ctx,
              map (\<lambda>c. SendMessage c msg) (delivered send msg (order chats))
              @ [ReplyText (''Broadcast sent to ~''
                            @ py_str (int (fcard chats - fcard (failing send msg chats)))
                            @ '' chats.'')],
              None)
       \<and> length (delivered send msg (order chats)) = fcard chats - fcard (failing send msg chats)"
proof -
  have c: "length (delivered send msg (order chats)) = fcard chats - fcard (failing send msg chats)"
    using assms(7,8) by (rule delivered_count)
  have k: "(case recent_chats (bot_data ctx) of None \<Rightarrow> {||} | Some s \<Rightarrow> s) = chats"
    using assms(6) by (simp add: known_chats_def)
  show ?thesis
    using assms(1-5) c
    by (simp add: cmd_broadcast_def k broadcast_loop_eq)
qed

theorem broadcast_counts_successes_witness:
  "cmd_broadcast admin_cfg flaky_send sorted_list_of_fset (broadcast_update 7) broadcast_context
     = (\<lparr>recent_chats = Some {|1, 2, 3|}\<rparr>,
        [SendMessage 1 ''hello all'', SendMessage 3 ''hello all'',
         ReplyText ''Broadcast sent to ~2 chats.''],
        None)"
proof -
  have o: "sorted_list_of_fset {|1, 2, 3::int|} = [1, 2, 3]"
    by (simp add: sorted_list_of_fset.rep_eq)
  have 1: "effective_user (broadcast_update 7) = Some 7"
    by (simp add: broadcast_update_def)
  have 2: "is_admin admin_cfg 7"
    by (simp add: is_admin_def admin_cfg_def)
  have 3: "args broadcast_context = Some [''hello'', ''all'']"
    by (simp add: broadcast_context_def)
  have 4: "strip (join '' '' [''hello'', ''all'']) = ''hello all''"
    by (simp add: strip_def is_space_def)
  have 5: "''hello all'' \<noteq> []"
    by simp
  have 6: "known_chats (bot_data broadcast_context) = {|1, 2, 3|}"
    by (simp add: known_chats_def broadcast_context_def)
  have 7: "distinct (sorted_list_of_fset {|1, 2, 3::int|})"
    by (simp add: o)
  have 8: "fset_of_list (sorted_list_of_fset {|1, 2, 3::int|}) = {|1, 2, 3|}"
    by simp
  have d: "delivered flaky_send ''hello all'' [1, 2, 3] = [1, 3]"
    by (simp add: delivered_def flaky_send_def)
  have n: "py_str 2 = ''2''"
    by code_simp
  note t = broadcast_counts_successes [of "broadcast_update 7" 7 admin_cfg broadcast_context
        "[''hello'', ''all'']" "''hello all''" "{|1, 2, 3|}" sorted_list_of_fset flaky_send,
        OF 1 2 3 4 5 6 7 8]
  from t have cnt: "fcard {|1, 2, 3::int|} - fcard (failing flaky_send ''hello all'' {|1, 2, 3|}) = 2"
    by (simp add: o d)
  from t show ?thesis
    by (simp add: o d n cnt broadcast_context_def)
qed

text \<open>
  Claim C7. For a user whose identifier is not in the allow-list, the broadcast command
  replies the fixed text \<^verbatim>\<open>Not authorized.\<close>, sends no message, and leaves the known-chat
  set as it was, whatever the arguments and the set are.
\<close>

theorem broadcast_not_authorized:
  assumes "effective_user upd = Some uid" and "uid |\<notin>| ADMIN_USER_IDS cfg"
  shows "cmd_broadcast cfg send order upd ctx = (bot_data ctx, [ReplyText ''Not authorized.''], None)
       \<and> filter is_send (fst (snd (cmd_broadcast cfg send order upd ctx))) = []
       \<and> known_chats (fst (cmd_broadcast cfg send order upd ctx)) = known_chats (bot_data ctx)"
  using assms by (simp add: cmd_broadcast_def is_admin_def is_send_def)

theorem broadcast_not_authorized_witness:
  "cmd_broadcast admin_cfg flaky_send sorted_list_of_fset (broadcast_update 8) broadcast_context
     = (\<lparr>recent_chats = Some {|1, 2, 3|}\<rparr>, [ReplyText ''Not authorized.''], None)"
proof -
  have 1: "effective_user (broadcast_update 8) = Some 8"
    by (simp add: broadcast_update_def)
  have 2: "8 |\<notin>| ADMIN_USER_IDS admin_cfg"
    by (simp add: admin_cfg_def)
  show ?thesis
    using broadcast_not_authorized [OF 1 2, of flaky_send sorted_list_of_fset broadcast_context]
    by (simp add: broadcast_context_def)
qed

subsection \<open>The callback router\<close>









subsection \<open>Which handlers record the chat\<close>

lemma search_cmd_bot_data: "fst (search_cmd cfg http upd ctx) = bot_data ctx"
  by (simp add: search_cmd_def Let_def split: option.splits sum.splits)

lemma on_text_fallback_bot_data:
  "fst (on_text_fallback cfg http assign_text upd ctx)
     = (case effective_chat upd of
          None \<Rightarrow> setdefault_recent_chats (bot_data ctx)
        | Some c \<Rightarrow> add_chat c (setdefault_recent_chats (bot_data ctx)))"
  by (simp add: on_text_fallback_def Let_def search_cmd_bot_data split: option.splits)

lemma known_chats_add:
  "known_chats (add_chat c (setdefault_recent_chats bd)) = finsert c (known_chats bd)"
  by (simp add: known_chats_def add_chat_def setdefault_recent_chats_def split: option.splits)

lemma add_chat_twice:
  "add_chat c (setdefault_recent_chats (add_chat c (setdefault_recent_chats bd)))
     = add_chat c (setdefault_recent_chats bd)"
  by (simp add: add_chat_def setdefault_recent_chats_def split: option.splits)

lemma setdefault_twice:
  "setdefault_recent_chats (setdefault_recent_chats bd) = setdefault_recent_chats bd"
  by (simp add: setdefault_recent_chats_def split: option.splits)

lemma start_bot_data: "fst (start cfg upd ctx) = bot_data ctx"
  by (simp add: start_def)

lemma cmd_broadcast_bot_data: "fst (cmd_broadcast cfg send order upd ctx) = bot_data ctx"
  by (simp add: cmd_broadcast_def Let_def split: option.splits prod.splits)

lemma callback_router_bot_data: "fst (callback_router P H upd ctx) = bot_data ctx"
  by (simp add: callback_router_def split: option.splits prod.splits)

text \<open>
  Claim C1, as the code has it. Only the free-text handler records the chat. After
  \<^verbatim>\<open>on_text_fallback\<close> has run on an update with an originating chat (also when the
  assignment of the text or the search it calls raises), the chat identifier is in the
  known-chat set, and running it again on the same update leaves \<^verbatim>\<open>bot_data\<close> as it is.
  The handlers of \<^verbatim>\<open>/start\<close>, \<^verbatim>\<open>/search\<close> and \<^verbatim>\<open>/broadcast\<close> and the button-press router
  return \<^verbatim>\<open>bot_data\<close> unchanged.
\<close>

theorem only_text_fallback_records_chat:
  "(effective_chat upd = Some c
      \<longrightarrow> c |\<in>| known_chats (fst (on_text_fallback cfg http assign_text upd ctx)))
   \<and> fst (on_text_fallback cfg http assign_text upd
            (ctx\<lparr>bot_data := fst (on_text_fallback cfg http assign_text upd ctx)\<rparr>))
       = fst (on_text_fallback cfg http assign_text upd ctx)
   \<and> fst (start cfg upd ctx) = bot_data ctx
   \<and> fst (search_cmd cfg http upd ctx) = bot_data ctx
   \<and> fst (cmd_broadcast cfg send order upd ctx) = bot_data ctx
   \<and> fst (callback_router P H upd ctx) = bot_data ctx"
proof (intro conjI impI)
  assume "effective_chat upd = Some c"
  then show "c |\<in>| known_chats (fst (on_text_fallback cfg http assign_text upd ctx))"
    by (simp add: on_text_fallback_bot_data known_chats_add)
next
  show "fst (on_text_fallback cfg http assign_text upd
              (ctx\<lparr>bot_data := fst (on_text_fallback cfg http assign_text upd ctx)\<rparr>))
          = fst (on_text_fallback cfg http assign_text upd ctx)"
    by (simp add: on_text_fallback_bot_data add_chat_twice setdefault_twice split: option.splits)
next
  show "fst (start cfg upd ctx) = bot_data ctx"
    by (rule start_bot_data)
next
  show "fst (search_cmd cfg http upd ctx) = bot_data ctx"
    by (rule search_cmd_bot_data)
next
  show "fst (cmd_broadcast cfg send order upd ctx) = bot_data ctx"
    by (rule cmd_broadcast_bot_data)
next
  show "fst (callback_router P H upd ctx) = bot_data ctx"
    by (rule callback_router_bot_data)
qed

theorem only_text_fallback_records_chat_witness:
  "42 |\<in>| known_chats (fst (on_text_fallback admin_cfg chaplin_http plain_assign
                               (text_update ''Chaplin'') empty_context))
   \<and> 42 |\<in>| known_chats (fst (on_text_fallback admin_cfg chaplin_http frozen_assign
                                 (text_update ''Chaplin'') empty_context))"
proof -
  have "effective_chat (text_update ''Chaplin'') = Some 42"
    by (simp add: text_update_def)
  then show ?thesis
    using only_text_fallback_records_chat
        [of "text_update ''Chaplin''" 42 admin_cfg chaplin_http plain_assign empty_context]
      only_text_fallback_records_chat
        [of "text_update ''Chaplin''" 42 admin_cfg chaplin_http frozen_assign empty_context]
    by simp
qed

text \<open>
  Claim C1 as stated fails: after \<^verbatim>\<open>/start\<close> from chat 42, and after a button press from
  chat 42, with no chat known before, chat 42 is not in the known-chat set.
\<close>

theorem start_does_not_record_chat:
  "42 |\<notin>| known_chats (fst (start admin_cfg (text_update ''/start'') empty_context))
   \<and> 42 |\<notin>| known_chats (fst (callback_router willing_platform failing_handlers
                                 (press ''trailer|movie|603'') empty_context))
   \<and> effective_chat (text_update ''/start'') = Some 42
   \<and> effective_chat (press ''trailer|movie|603'') = Some 42"
  by (simp add: start_bot_data callback_router_bot_data known_chats_def empty_context_def
      text_update_def press_def)

subsection \<open>The free-text fallback and the search command\<close>

lemma search_cmd_ignores_update: "search_cmd cfg http upd ctx = search_cmd cfg http upd' ctx"
  by (simp add: search_cmd_def)

text \<open>
  What the fallback does with a text that is not blank. When the assignment of the text
  raises, that exception leaves the handler and \<^verbatim>\<open>search_cmd\<close> is not called. When it
  succeeds, the outcome is that of \<^verbatim>\<open>search_cmd\<close> on the \<^verbatim>\<open>context.args\<close> the handler was
  given, so the text decides nothing.
\<close>

lemma on_text_fallback_frozen:
  assumes "message_text upd = Some t" and "strip t \<noteq> []"
    and "assign_text (''/search '' @ strip t) = Some e"
  shows "on_text_fallback cfg http assign_text upd ctx
           = (case effective_chat upd of
                None \<Rightarrow> setdefault_recent_chats (bot_data ctx)
              | Some c \<Rightarrow> add_chat c (setdefault_recent_chats (bot_data ctx)),
              [], Some e)"
  using assms by (simp add: on_text_fallback_def Let_def)

lemma on_text_fallback_is_search_cmd:
  assumes "message_text upd = Some t" and "strip t \<noteq> []"
    and "assign_text (''/search '' @ strip t) = None"
  shows "on_text_fallback cfg http assign_text upd ctx
           = search_cmd cfg http upd
               (ctx\<lparr>bot_data := (case effective_chat upd of
                                   None \<Rightarrow> setdefault_recent_chats (bot_data ctx)
                                 | Some c \<Rightarrow> add_chat c (setdefault_recent_chats (bot_data ctx)))\<rparr>)"
proof -
  have "on_text_fallback cfg http assign_text upd ctx
          = search_cmd cfg http (upd\<lparr>message_text := Some (''/search '' @ strip t)\<rparr>)
              (ctx\<lparr>bot_data := (case effective_chat upd of
                                  None \<Rightarrow> setdefault_recent_chats (bot_data ctx)
                                | Some c \<Rightarrow> add_chat c (setdefault_recent_chats (bot_data ctx)))\<rparr>)"
    using assms by (simp add: on_text_fallback_def Let_def)
  also have "\<dots> = search_cmd cfg http upd
              (ctx\<lparr>bot_data := (case effective_chat upd of
                                  None \<Rightarrow> setdefault_recent_chats (bot_data ctx)
                                | Some c \<Rightarrow> add_chat c (setdefault_recent_chats (bot_data ctx)))\<rparr>)"
    by (rule search_cmd_ignores_update)
  finally show ?thesis .
qed

lemma on_text_fallback_any_text:
  assumes "strip t \<noteq> []" and "strip t' \<noteq> []"
    and "assign_text (''/search '' @ strip t) = None"
    and "assign_text (''/search '' @ strip t') = None"
  shows "on_text_fallback cfg http assign_text (upd\<lparr>message_text := Some t\<rparr>) ctx
           = on_text_fallback cfg http assign_text (upd\<lparr>message_text := Some t'\<rparr>) ctx"
proof -
  let ?bd = "case effective_chat upd of
               None \<Rightarrow> setdefault_recent_chats (bot_data ctx)
             | Some c \<Rightarrow> add_chat c (setdefault_recent_chats (bot_data ctx))"
  have "on_text_fallback cfg http assign_text (upd\<lparr>message_text := Some t\<rparr>) ctx
          = search_cmd cfg http (upd\<lparr>message_text := Some t\<rparr>) (ctx\<lparr>bot_data := ?bd\<rparr>)"
    using on_text_fallback_is_search_cmd
        [of "upd\<lparr>message_text := Some t\<rparr>" t assign_text cfg http ctx] assms(1,3)
    by simp
  also have "\<dots> = search_cmd cfg http (upd\<lparr>message_text := Some t'\<rparr>) (ctx\<lparr>bot_data := ?bd\<rparr>)"
    by (rule search_cmd_ignores_update)
  also have "\<dots> = on_text_fallback cfg http assign_text (upd\<lparr>message_text := Some t'\<rparr>) ctx"
    using on_text_fallback_is_search_cmd
        [of "upd\<lparr>message_text := Some t'\<rparr>" t' assign_text cfg http ctx] assms(2,4)
    by simp
  finally show ?thesis .
qed

lemma strip_chaplin: "strip ''Chaplin'' = ''Chaplin''"
  by (simp add: strip_def is_space_def)

lemma fallback_raises:
  "on_text_fallback admin_cfg chaplin_http plain_assign (text_update ''Chaplin'') empty_context
     = (\<lparr>recent_chats = Some {|42|}\<rparr>, [], Some (TypeError ''can only join an iterable''))"
  by (simp add: on_text_fallback_def search_cmd_def empty_context_def text_update_def
      setdefault_recent_chats_def add_chat_def strip_chaplin plain_assign_def)

lemma fallback_frozen:
  "on_text_fallback admin_cfg chaplin_http frozen_assign (text_update ''Chaplin'') empty_context
     = (\<lparr>recent_chats = Some {|42|}\<rparr>, [], Some frozen_message_error)"
  by (simp add: on_text_fallback_def empty_context_def text_update_def
      setdefault_recent_chats_def add_chat_def strip_chaplin frozen_assign_def)

lemma fallback_prompts:
  "on_text_fallback admin_cfg chaplin_http plain_assign (text_update ''Chaplin'')
         \<lparr>args = Some [], bot_data = \<lparr>recent_chats = None\<rparr>\<rparr>
     = (\<lparr>recent_chats = Some {|42|}\<rparr>, [ReplyText ''Please type: /search <movie/series name>''], None)"
proof -
  have "on_text_fallback admin_cfg chaplin_http plain_assign (text_update ''Chaplin'')
          \<lparr>args = Some [], bot_data = \<lparr>recent_chats = None\<rparr>\<rparr>
        = search_cmd admin_cfg chaplin_http (text_update ''/search Chaplin'')
            \<lparr>args = Some [], bot_data = \<lparr>recent_chats = Some {|42|}\<rparr>\<rparr>"
    by (simp add: on_text_fallback_def text_update_def setdefault_recent_chats_def add_chat_def
        strip_chaplin plain_assign_def)
  then show ?thesis
    by (simp add: search_cmd_def strip_empty)
qed

lemma py_str_examples: "py_str 10435 = ''10435''" "py_str 4553 = ''4553''"
  by (simp_all add: py_str_def digits10.simps digit_chars)

lemma chaplin_keyboard_built: "keyboard_loop search_expected = Inr chaplin_keyboard"
  by (simp add: search_expected_def chaplin_keyboard_def search_button_def ebind_def
      py_str_examples)

lemma chaplin_found: "tmdb_search chaplin_http ''key'' ''Chaplin'' = Inr search_expected"
  using tmdb_search_example by (simp add: chaplin_http_def [abs_def])

lemma search_chaplin:
  "search_cmd admin_cfg chaplin_http (text_update ''/search Chaplin'')
       \<lparr>args = Some [''Chaplin''], bot_data = \<lparr>recent_chats = None\<rparr>\<rparr>
     = (\<lparr>recent_chats = None\<rparr>, [ChatActionTyping, ReplyKeyboard ''Select one:'' chaplin_keyboard], None)"
proof -
  have k: "TMDB_API_KEY admin_cfg = ''key''"
    by (simp add: admin_cfg_def)
  have n: "search_expected \<noteq> []"
    by (simp add: search_expected_def)
  show ?thesis
    by (simp add: search_cmd_def strip_chaplin k chaplin_found n chaplin_keyboard_built)
qed

text \<open>
  Claim C3 at the free-text message \<^verbatim>\<open>Chaplin\<close>. The fallback assigns the rewritten text
  and calls \<^verbatim>\<open>search_cmd\<close>, which reads \<^verbatim>\<open>context.args\<close> and not the text. For a message
  that is not a command \<^verbatim>\<open>context.args\<close> is \<^verbatim>\<open>None\<close> and joining it raises \<^verbatim>\<open>TypeError\<close>;
  on a frozen message the assignment itself raises \<^verbatim>\<open>AttributeError\<close> before; and were
  \<^verbatim>\<open>context.args\<close> the empty list, the reply would be the usage prompt. In no case is
  the reply that of \<^verbatim>\<open>/search Chaplin\<close>, the picker of the two matches.
\<close>

theorem text_fallback_ignores_text:
  "on_text_fallback admin_cfg chaplin_http plain_assign (text_update ''Chaplin'') empty_context
     = (\<lparr>recent_chats = Some {|42|}\<rparr>, [], Some (TypeError ''can only join an iterable''))
   \<and> on_text_fallback admin_cfg chaplin_http frozen_assign (text_update ''Chaplin'') empty_context
     = (\<lparr>recent_chats = Some {|42|}\<rparr>, [], Some frozen_message_error)
   \<and> on_text_fallback admin_cfg chaplin_http plain_assign (text_update ''Chaplin'')
         \<lparr>args = Some [], bot_data = \<lparr>recent_chats = None\<rparr>\<rparr>
     = (\<lparr>recent_chats = Some {|42|}\<rparr>, [ReplyText ''Please type: /search <movie/series name>''], None)
   \<and> search_cmd admin_cfg chaplin_http (text_update ''/search Chaplin'')
         \<lparr>args = Some [''Chaplin''], bot_data = \<lparr>recent_chats = None\<rparr>\<rparr>
     = (\<lparr>recent_chats = None\<rparr>, [ChatActionTyping, ReplyKeyboard ''Select one:'' chaplin_keyboard], None)"
  by (intro conjI fallback_raises fallback_frozen fallback_prompts search_chaplin)

end
